theory Spec2Isabelle
  imports Complex_Main "HOL-Library.Sublist"
begin

section \<open>The signal-derivation pipeline of the news terminal (src/App.tsx)\<close>

text \<open>
  The theory embeds the data transformations of \<^verbatim>\<open>src/App.tsx\<close>: the summary cleaner
  \<^verbatim>\<open>cleanSummary\<close>, the keyword classifier \<^verbatim>\<open>classifyCategory\<close>, the merge of the
  feed payloads in \<^verbatim>\<open>loadNews\<close>, the price enrichment in \<^verbatim>\<open>loadCorrelatedMoves\<close>, the
  regime labels of \<^verbatim>\<open>loadMacro\<close> and the trade idea engine.

  Conventions of the embedding.
  \<^item> A JavaScript string is a \<open>string\<close>; each \<open>char\<close> stands for one code unit in the
    range 0..255 (ASCII and Latin-1). Code units above 255 are not represented.
  \<^item> A number read from JSON is a \<open>real\<close>: the exact value of a finite double (JSON
    has no literal for NaN or an infinity; a figure written beyond the range of the doubles
    is outside the model). Comparisons and \<^verbatim>\<open>toFixed\<close> work on that exact value, as they
    do in the code.
  \<^item> Double arithmetic rounds, so it is not the arithmetic of the reals. The sum and the
    quotient that \<^verbatim>\<open>loadMacro\<close> computes are parameters of the model (\<open>float_ops\<close>), and
    every statement about the regime labels holds for whatever these operations yield. The
    edge figure of a narrative idea, \<^verbatim>\<open>Math.random() * 2 + 0.5\<close>, is taken in the reals.
  \<^item> A field of a JSON object that is absent, null or not of the expected type is
    \<open>None\<close>.
  \<^item> What the code reads from outside (the fetched payloads, \<^verbatim>\<open>Math.random()\<close>, the
    browser's DOM, \<^verbatim>\<open>Number.prototype.toString\<close>) is a parameter of the model.
  \<^item> A \<^verbatim>\<open>try/catch\<close> that logs and leaves the React state alone is a function from the
    old state to the new one that returns the old state on that path.
\<close>

subsection \<open>Strings\<close>

text \<open>\<^verbatim>\<open>\s\<close> of a JavaScript regular expression (and the set \<^verbatim>\<open>trim\<close> strips), restricted
  to the code units 0..255: TAB, LF, VT, FF, CR, SPACE and NO-BREAK SPACE.\<close>

definition isSpace :: "char \<Rightarrow> bool" where
  "isSpace c = ((of_char c :: nat) \<in> {9, 10, 11, 12, 13, 32, 160})"

text \<open>\<^verbatim>\<open>String.prototype.toLowerCase\<close> on one code unit: A..Z and the Latin-1 capitals
  (192..222 without the multiplication sign 215) move up by 32, which for these code units
  is setting bit 5.\<close>

definition toLowerChar :: "char \<Rightarrow> char" where
  "toLowerChar c =
     (let n = (of_char c :: nat) in
      if (65 \<le> n \<and> n \<le> 90) \<or> (192 \<le> n \<and> n \<le> 222 \<and> n \<noteq> 215)
      then (case c of Char b0 b1 b2 b3 b4 b5 b6 b7 \<Rightarrow> Char b0 b1 b2 b3 b4 True b6 b7)
      else c)"

definition toLowerCase :: "string \<Rightarrow> string" where
  "toLowerCase s = map toLowerChar s"

text \<open>\<^verbatim>\<open>s.includes(pat)\<close>: \<open>pat\<close> occurs in \<open>s\<close> as a contiguous substring.\<close>

fun js_includes :: "string \<Rightarrow> string \<Rightarrow> bool" where
  "js_includes [] pat = (pat = [])"
| "js_includes (c # cs) pat = (prefix pat (c # cs) \<or> js_includes cs pat)"

text \<open>\<^verbatim>\<open>a || b\<close> where \<open>a\<close> is an optional string: an absent or empty \<open>a\<close> is falsy.\<close>

definition orElse :: "string option \<Rightarrow> string \<Rightarrow> string" where
  "orElse a b = (case a of None \<Rightarrow> b | Some s \<Rightarrow> if s = [] then b else s)"

text \<open>\<^verbatim>\<open>text.replace(/re/g, rep)\<close>. The matcher \<open>m\<close> stands for the regular expression: at
  the start of its argument it gives the length of the match there, if there is one. The
  scan goes left to right, puts \<open>rep\<close> for each match and continues behind it. None of the
  three expressions of the source matches the empty string, so a match has length
  \<open>Suc n\<close>.\<close>

fun replaceAll :: "(string \<Rightarrow> nat option) \<Rightarrow> string \<Rightarrow> string \<Rightarrow> string" where
  "replaceAll m rep [] = []"
| "replaceAll m rep (c # cs) =
     (case m (c # cs) of
        Some (Suc n) \<Rightarrow> rep @ replaceAll m rep (drop n cs)
      | _ \<Rightarrow> c # replaceAll m rep cs)"

text \<open>\<^verbatim>\<open>/<[^>]+>/\<close>: an opening angle, one or more characters other than the closing
  angle (greedy, line breaks included), a closing angle.\<close>

definition tagLen :: "string \<Rightarrow> nat option" where
  "tagLen s =
     (case s of
        [] \<Rightarrow> None
      | c # r \<Rightarrow>
          (let body = takeWhile (\<lambda>x. x \<noteq> CHR ''>'') r in
           if c = CHR ''<'' \<and> body \<noteq> [] \<and> length body < length r
           then Some (length body + 2) else None))"

text \<open>\<^verbatim>\<open>/https?:\/\/\S+/\<close>: the scheme with or without the \<open>s\<close>, then one or more
  characters that are not white space, as many as there are.\<close>

definition nonSpaceRun :: "string \<Rightarrow> nat" where
  "nonSpaceRun s = length (takeWhile (\<lambda>c. \<not> isSpace c) s)"

definition urlLen :: "string \<Rightarrow> nat option" where
  "urlLen s =
     (if prefix ''https://'' s \<and> 0 < nonSpaceRun (drop 8 s)
      then Some (8 + nonSpaceRun (drop 8 s))
      else if prefix ''http://'' s \<and> 0 < nonSpaceRun (drop 7 s)
      then Some (7 + nonSpaceRun (drop 7 s))
      else None)"

text \<open>\<^verbatim>\<open>/\s+/\<close>: a maximal run of white space.\<close>

definition wsLen :: "string \<Rightarrow> nat option" where
  "wsLen s = (let w = takeWhile isSpace s in if w = [] then None else Some (length w))"

definition stripTags :: "string \<Rightarrow> string" where
  "stripTags s = replaceAll tagLen [] s"

definition stripUrls :: "string \<Rightarrow> string" where
  "stripUrls s = replaceAll urlLen [] s"

definition collapseWs :: "string \<Rightarrow> string" where
  "collapseWs s = replaceAll wsLen '' '' s"

definition trim :: "string \<Rightarrow> string" where
  "trim s = rev (dropWhile isSpace (rev (dropWhile isSpace s)))"

subsection \<open>Text normalizer: cleanSummary\<close>

definition noSummary :: string where
  "noSummary = ''No summary available.''"

text \<open>The browser's DOM, as far as \<^verbatim>\<open>cleanSummary\<close> uses it. \<open>None\<close>: there is no
  \<^verbatim>\<open>window.document\<close>. \<open>Some f\<close>: \<open>f html\<close> is what
  \<^verbatim>\<open>div.textContent || div.innerText || ""\<close> yields after \<^verbatim>\<open>div.innerHTML = html\<close>, or
  \<open>None\<close> when one of these operations throws.\<close>

type_synonym dom = "(string \<Rightarrow> string option) option"

definition domText :: "dom \<Rightarrow> string \<Rightarrow> string option" where
  "domText d html = (case d of None \<Rightarrow> None | Some f \<Rightarrow> f html)"

text \<open>\<^verbatim>\<open>text.replace(/https?:\/\/\S+/g, "")\<close>, then
  \<^verbatim>\<open>text.replace(/\s+/g, " ").trim() || "No summary available."\<close>.\<close>

definition tidy :: "string \<Rightarrow> string" where
  "tidy text = (let t = trim (collapseWs (stripUrls text)) in if t = [] then noSummary else t)"

text \<open>The argument is \<open>None\<close> for a value that is not a string. With a DOM the text comes
  from the parsed element; without one, or when the DOM throws, the tags are cut by the
  regular expression.\<close>

definition cleanSummary :: "dom \<Rightarrow> string option \<Rightarrow> string" where
  "cleanSummary d html =
     (case html of
        None \<Rightarrow> noSummary
      | Some h \<Rightarrow>
          if h = [] then noSummary
          else (case domText d h of
                  Some text \<Rightarrow> tidy text
                | None \<Rightarrow> tidy (stripTags h)))"

subsection \<open>Category classifier: classifyCategory\<close>

definition classifyCategory :: "string \<Rightarrow> string" where
  "classifyCategory text =
     (if text = [] then ''General''
      else let t = toLowerCase text in
        if js_includes t ''ai'' \<or> js_includes t ''machine learning'' \<or> js_includes t ''nvidia''
          then ''AI''
        else if js_includes t ''layer 2'' \<or> js_includes t ''scaling'' \<or> js_includes t ''l2''
                \<or> js_includes t ''rollup''
          then ''Layer2''
        else if js_includes t ''staking'' \<or> js_includes t ''liquid staking''
                \<or> js_includes t ''restaking''
          then ''LST''
        else if js_includes t ''nft'' \<or> js_includes t ''gaming'' \<or> js_includes t ''metaverse''
          then ''Gaming''
        else if js_includes t ''defi'' \<or> js_includes t ''dex'' \<or> js_includes t ''uniswap''
                \<or> js_includes t ''aave''
          then ''DeFi''
        else if js_includes t ''solana'' \<or> js_includes t ''sol'' then ''Solana''
        else if js_includes t ''stablecoin'' \<or> js_includes t ''usdt'' \<or> js_includes t ''usdc''
          then ''Stable''
        else ''General'')"

definition CATEGORY_ASSET_MAP :: "(string \<times> string) list" where
  "CATEGORY_ASSET_MAP =
     [(''AI'', ''render-token''),
      (''Layer2'', ''matic-network''),
      (''LST'', ''lido-dao''),
      (''Gaming'', ''immutable-x''),
      (''DeFi'', ''uniswap''),
      (''Solana'', ''solana''),
      (''Stable'', ''tether''),
      (''General'', ''bitcoin'')]"

subsection \<open>News normalizer: loadNews\<close>

record endpoint =
  name :: string
  url :: string

definition EXCHANGE_NEWS_ENDPOINTS :: "endpoint list" where
  "EXCHANGE_NEWS_ENDPOINTS =
     [\<lparr>name = ''Binance'',
       url = ''https://api.rss2json.com/v1/api.json?rss_url=https://www.binance.com/en/support/announcement/rss''\<rparr>,
      \<lparr>name = ''Bybit'',
       url = ''https://api.rss2json.com/v1/api.json?rss_url=https://announcements.bybit.com/en-US/rss''\<rparr>,
      \<lparr>name = ''OKX'',
       url = ''https://api.rss2json.com/v1/api.json?rss_url=https://www.okx.com/help/announcement/rss''\<rparr>,
      \<lparr>name = ''Cointelegraph'',
       url = ''https://api.rss2json.com/v1/api.json?rss_url=https://cointelegraph.com/rss''\<rparr>,
      \<lparr>name = ''Coindesk'',
       url = ''https://api.rss2json.com/v1/api.json?rss_url=https://www.coindesk.com/arc/outboundfeeds/rss/''\<rparr>]"

text \<open>One entry of a feed's \<^verbatim>\<open>items\<close> array. Every field is optional.\<close>

record raw_item =
  raw_title :: "string option"
  raw_description :: "string option"
  raw_pubDate :: "string option"
  raw_guid :: "string option"
  raw_link :: "string option"

text \<open>The parsed response of one feed. \<open>raw_items\<close> is \<open>None\<close> when the response has no
  \<^verbatim>\<open>items\<close> field or the field is not an array.\<close>

record payload =
  raw_items :: "raw_item list option"

record news_item =
  item_id :: string
  title :: string
  source :: string
  timeAgo :: string
  impact :: string
  sentiment :: string
  priceMove :: string
  category :: string
  summary :: string
  tags :: "string list"

text \<open>A value of \<^verbatim>\<open>Math.random()\<close>: a number from 0 up to, not including, 1.\<close>

typedef draw = "{r :: real. 0 \<le> r \<and> r < 1}"
  morphisms drawValue Draw
  by (rule exI [of _ 0]) simp

text \<open>\<^verbatim>\<open>xs[Math.floor(Math.random() * xs.length)]\<close>.\<close>

definition randomIndex :: "draw \<Rightarrow> nat \<Rightarrow> nat" where
  "randomIndex r n = nat \<lfloor>drawValue r * real n\<rfloor>"

definition pick :: "'a list \<Rightarrow> draw \<Rightarrow> 'a" where
  "pick xs r = xs ! randomIndex r (length xs)"

definition sentiments :: "string list" where
  "sentiments = [''Bullish'', ''Bearish'', ''Neutral'', ''Cautious'']"

definition impacts :: "string list" where
  "impacts = [''High'', ''Medium'', ''Low'']"

datatype error = TypeError

text \<open>The object built for one raw item inside \<^verbatim>\<open>items.map\<close>. \<open>nm\<close> is
  \<^verbatim>\<open>EXCHANGE_NEWS_ENDPOINTS[i].name\<close>; \<open>r1\<close> and \<open>r2\<close> are the two random numbers, drawn
  for \<^verbatim>\<open>impact\<close> first and \<^verbatim>\<open>sentiment\<close> second.\<close>

definition mkItem :: "dom \<Rightarrow> draw \<Rightarrow> draw \<Rightarrow> string \<Rightarrow> raw_item \<Rightarrow> news_item" where
  "mkItem d r1 r2 nm item =
     (let summary = cleanSummary d (Some (orElse (raw_description item) ''No summary available.''));
          title = orElse (raw_title item) ''Untitled'';
          category = classifyCategory (title @ '' '' @ summary)
      in \<lparr>item_id = orElse (raw_guid item) (orElse (raw_link item) (nm @ ''-'' @ title)),
          title = title,
          source = nm,
          timeAgo = orElse (raw_pubDate item) [],
          impact = pick impacts r1,
          sentiment = pick sentiments r2,
          priceMove = ''N/A'',
          category = category,
          summary = summary,
          tags = [nm, category]\<rparr>)"

text \<open>\<^verbatim>\<open>items.map((item) => ...)\<close> for one payload; \<open>k\<close> counts the random numbers drawn
  so far.\<close>

fun mapItems :: "dom \<Rightarrow> (nat \<Rightarrow> draw) \<Rightarrow> nat \<Rightarrow> string \<Rightarrow> raw_item list \<Rightarrow> news_item list" where
  "mapItems d rnd k nm [] = []"
| "mapItems d rnd k nm (item # items) =
     mkItem d (rnd k) (rnd (k + 1)) nm item # mapItems d rnd (k + 2) nm items"

text \<open>\<^verbatim>\<open>res && Array.isArray(res.items) ? res.items : []\<close>.\<close>

definition itemsOf :: "payload \<Rightarrow> raw_item list" where
  "itemsOf res = (case raw_items res of Some xs \<Rightarrow> xs | None \<Rightarrow> [])"

text \<open>\<^verbatim>\<open>.flatMap((res, i) => ...)\<close> over the payloads that passed \<^verbatim>\<open>filter(Boolean)\<close>,
  from index \<open>i\<close> on. Reading \<^verbatim>\<open>EXCHANGE_NEWS_ENDPOINTS[i].name\<close> with \<open>i\<close> beyond the
  table throws a TypeError; the read happens in the callback of an item, so only for a
  payload that has items.\<close>

fun flatMapFrom :: "dom \<Rightarrow> (nat \<Rightarrow> draw) \<Rightarrow> nat \<Rightarrow> nat \<Rightarrow> payload list \<Rightarrow> error + news_item list" where
  "flatMapFrom d rnd k i [] = Inr []"
| "flatMapFrom d rnd k i (res # rest) =
     (let items = itemsOf res in
      if items \<noteq> [] \<and> length EXCHANGE_NEWS_ENDPOINTS \<le> i then Inl TypeError
      else (case flatMapFrom d rnd (k + 2 * length items) (i + 1) rest of
              Inl e \<Rightarrow> Inl e
            | Inr later \<Rightarrow>
                Inr (mapItems d rnd k (name (EXCHANGE_NEWS_ENDPOINTS ! i)) items @ later)))"

text \<open>\<^verbatim>\<open>results.filter(Boolean)\<close>: a failed fetch left \<^verbatim>\<open>null\<close> in \<open>results\<close>.\<close>

definition filterBoolean :: "payload option list \<Rightarrow> payload list" where
  "filterBoolean results = List.map_filter (\<lambda>r. r) results"

text \<open>The value of \<^verbatim>\<open>merged\<close>: \<open>results\<close> holds, in the order of
  \<^verbatim>\<open>EXCHANGE_NEWS_ENDPOINTS\<close>, the parsed response of each feed, or \<open>None\<close> where the
  fetch failed.\<close>

definition merged :: "dom \<Rightarrow> (nat \<Rightarrow> draw) \<Rightarrow> payload option list \<Rightarrow> error + news_item list" where
  "merged d rnd results =
     (case flatMapFrom d rnd 0 0 (filterBoolean results) of
        Inl e \<Rightarrow> Inl e
      | Inr items \<Rightarrow> Inr (take 60 items))"

text \<open>\<^verbatim>\<open>loadNews\<close> as a step on the state \<^verbatim>\<open>liveNews\<close>: \<^verbatim>\<open>setLiveNews(merged)\<close>, or the
  state as it was when the body threw.\<close>

definition loadNews :: "dom \<Rightarrow> (nat \<Rightarrow> draw) \<Rightarrow> payload option list \<Rightarrow> news_item list \<Rightarrow> news_item list" where
  "loadNews d rnd results liveNews =
     (case merged d rnd results of Inl e \<Rightarrow> liveNews | Inr items \<Rightarrow> items)"

subsection \<open>Numbers as text\<close>

definition digitChar :: "nat \<Rightarrow> char" where
  "digitChar d = ''0123456789'' ! d"

text \<open>The decimal digits of a natural number, as template literals and \<^verbatim>\<open>toFixed\<close>
  print an integer.\<close>

fun showNat :: "nat \<Rightarrow> string" where
  "showNat n = (if n < 10 then [digitChar n] else showNat (n div 10) @ [digitChar (n mod 10)])"

declare showNat.simps [simp del]

text \<open>\<^verbatim>\<open>x.toFixed(f)\<close> (ECMAScript, Number.prototype.toFixed) for a finite \<open>x\<close>: the sign is
  taken off first; \<open>n\<close> is the integer nearest to \<open>x * 10^f\<close>, the larger one of two; its
  digits are padded with zeros to \<open>f + 1\<close> places and the point goes before the last \<open>f\<close>.
  From \<open>10^21\<close> on the result is \<^verbatim>\<open>Number.prototype.toString\<close> of the number, which
  the model takes as the parameter \<open>numberToString\<close>.\<close>

definition toFixed :: "(real \<Rightarrow> string) \<Rightarrow> real \<Rightarrow> nat \<Rightarrow> string" where
  "toFixed numberToString x0 f =
     (let s = (if x0 < 0 then ''-'' else []);
          x = \<bar>x0\<bar>
      in if 10 ^ 21 \<le> x then s @ numberToString x
         else
           (let n = nat \<lfloor>x * 10 ^ f + 1 / 2\<rfloor>;
                m = showNat n
            in if f \<noteq> 0 then
                 (let k = length m;
                      z = (if k \<le> f then replicate (f + 1 - k) CHR ''0'' @ m else m);
                      k' = (if k \<le> f then f + 1 else k)
                  in s @ take (k' - f) z @ ''.'' @ drop (k' - f) z)
               else s @ m))"

subsection \<open>Asset correlator: loadCorrelatedMoves\<close>

text \<open>One entry of the price source's answer. A field is \<open>None\<close> when it is absent or not
  a number.\<close>

record price_entry =
  usd :: "real option"
  usd_24h_change :: "real option"
  usd_24h_vol :: "real option"

type_synonym price_data = "string \<Rightarrow> price_entry option"

text \<open>\<^verbatim>\<open>CATEGORY_ASSET_MAP[c] || CATEGORY_ASSET_MAP.General\<close>, for a key \<open>c\<close> that is one of
  the table's or names no property at all.\<close>

definition assetOf :: "string \<Rightarrow> string" where
  "assetOf c =
     (case map_of CATEGORY_ASSET_MAP c of
        Some token \<Rightarrow> token
      | None \<Rightarrow> (case map_of CATEGORY_ASSET_MAP ''General'' of Some g \<Rightarrow> g | None \<Rightarrow> []))"

text \<open>\<^verbatim>\<open>Array.from(new Set(...))\<close>: the first occurrence of each token, in order.\<close>

definition tokens :: "news_item list \<Rightarrow> string list" where
  "tokens liveNews = rev (remdups (rev (map (\<lambda>n. assetOf (category n)) liveNews)))"

text \<open>The callback of \<^verbatim>\<open>liveNews.map\<close>.\<close>

definition enrich :: "(real \<Rightarrow> string) \<Rightarrow> price_data \<Rightarrow> news_item \<Rightarrow> news_item" where
  "enrich numberToString data item =
     (let token = assetOf (category item) in
      case data token of
        None \<Rightarrow> item\<lparr>priceMove := ''N/A''\<rparr>
      | Some info \<Rightarrow>
          (case usd_24h_change info of
             None \<Rightarrow> item\<lparr>priceMove := ''N/A''\<rparr>
           | Some pct \<Rightarrow>
               (let formatted = (if pct > 0 then ''+'' else []) @ toFixed numberToString pct 2 @ ''%''
                in item\<lparr>priceMove := formatted\<rparr>)))"

text \<open>\<^verbatim>\<open>loadCorrelatedMoves\<close> with its effect's guard, as a step on \<^verbatim>\<open>liveNews\<close>. \<open>fetched\<close>
  is the parsed answer of the price source, or \<open>None\<close> when the fetch or the parse threw
  (logged; the state stays).\<close>

definition loadCorrelatedMoves ::
  "(real \<Rightarrow> string) \<Rightarrow> price_data option \<Rightarrow> news_item list \<Rightarrow> news_item list" where
  "loadCorrelatedMoves numberToString fetched liveNews =
     (if liveNews = [] then liveNews
      else if tokens liveNews = [] then liveNews
      else (case fetched of
              None \<Rightarrow> liveNews
            | Some data \<Rightarrow> map (enrich numberToString data) liveNews))"

subsection \<open>Macro regime estimator: loadMacro\<close>

record macro =
  trendLabel :: string
  trendDesc :: string
  volaLabel :: string
  volaDesc :: string
  liqLabel :: string
  liqDesc :: string

definition initialMacro :: macro where
  "initialMacro =
     \<lparr>trendLabel = ''Loading...'',
      trendDesc = ''Fetching live market data...'',
      volaLabel = ''Loading...'',
      volaDesc = [],
      liqLabel = ''Loading...'',
      liqDesc = []\<rparr>"

text \<open>\<^verbatim>\<open>Number(x || 0)\<close> for a field that is a number or missing.\<close>

definition numberOr0 :: "real option \<Rightarrow> real" where
  "numberOr0 x = (case x of None \<Rightarrow> 0 | Some v \<Rightarrow> v)"

text \<open>\<^verbatim>\<open>data.bitcoin || {}\<close>.\<close>

definition entryOr :: "price_entry option \<Rightarrow> price_entry" where
  "entryOr e =
     (case e of
        None \<Rightarrow> \<lparr>usd = None, usd_24h_change = None, usd_24h_vol = None\<rparr>
      | Some v \<Rightarrow> v)"

text \<open>A number that the double arithmetic of \<^verbatim>\<open>loadMacro\<close> yields: a finite double, by its
  exact value, or an infinity (the sum of two finite doubles can overflow). The sum of two
  finite doubles and the quotient of such a sum by 2 are never NaN.\<close>

datatype number = Finite real | PosInfinity | NegInfinity

text \<open>The double arithmetic itself. IEEE 754 rounds every result to a double, so the sum the
  code computes is not the sum of the reals. The two operations that \<^verbatim>\<open>loadMacro\<close> uses
  are parameters of the model: \<open>fadd a b\<close> is \<^verbatim>\<open>a + b\<close> for two finite doubles, \<open>fdiv x c\<close>
  is \<^verbatim>\<open>x / c\<close> for a number \<open>x\<close> and a finite double \<open>c\<close>.\<close>

record float_ops =
  fadd :: "real \<Rightarrow> real \<Rightarrow> number"
  fdiv :: "number \<Rightarrow> real \<Rightarrow> number"

text \<open>\<^verbatim>\<open>x > c\<close> and \<^verbatim>\<open>x < c\<close> for a number \<open>x\<close> and a finite \<open>c\<close>; \<^verbatim>\<open>Math.abs(x)\<close>.\<close>

definition numGt :: "number \<Rightarrow> real \<Rightarrow> bool" where
  "numGt x c = (case x of Finite v \<Rightarrow> v > c | PosInfinity \<Rightarrow> True | NegInfinity \<Rightarrow> False)"

definition numLt :: "number \<Rightarrow> real \<Rightarrow> bool" where
  "numLt x c = (case x of Finite v \<Rightarrow> v < c | PosInfinity \<Rightarrow> False | NegInfinity \<Rightarrow> True)"

definition mathAbs :: "number \<Rightarrow> number" where
  "mathAbs x =
     (case x of Finite v \<Rightarrow> Finite \<bar>v\<bar> | PosInfinity \<Rightarrow> PosInfinity | NegInfinity \<Rightarrow> PosInfinity)"

definition avgChgOf :: "float_ops \<Rightarrow> price_data \<Rightarrow> number" where
  "avgChgOf ops data =
     (let btc = entryOr (data ''bitcoin'');
          eth = entryOr (data ''ethereum'');
          btcChg = numberOr0 (usd_24h_change btc);
          ethChg = numberOr0 (usd_24h_change eth)
      in fdiv ops (fadd ops btcChg ethChg) 2)"

definition totalVolOf :: "float_ops \<Rightarrow> price_data \<Rightarrow> number" where
  "totalVolOf ops data =
     (let btc = entryOr (data ''bitcoin'');
          eth = entryOr (data ''ethereum'');
          btcVol = numberOr0 (usd_24h_vol btc);
          ethVol = numberOr0 (usd_24h_vol eth)
      in fadd ops btcVol ethVol)"

definition trendOf :: "number \<Rightarrow> string \<times> string" where
  "trendOf avgChg =
     (if numGt avgChg 3 then (''Strong Bull'', ''BTC/ETH show strong upside over the last 24h.'')
      else if numGt avgChg 1 then (''Mild Bull'', ''Upside bias with modest 24h gains.'')
      else if numLt avgChg (- 3)
        then (''Strong Bear'', ''Heavy downside pressure in majors over the last 24h.'')
      else if numLt avgChg (- 1) then (''Mild Bear'', ''Downside bias with controlled drawdown.'')
      else (''Sideways'', ''Major pairs trade flat on the day.''))"

definition volaOf :: "number \<Rightarrow> string \<times> string" where
  "volaOf avgChg =
     (if numGt (mathAbs avgChg) 4
        then (''High Stress'', ''Large 24h moves imply stressed volatility conditions.'')
      else if numGt (mathAbs avgChg) 2
        then (''Elevated'', ''Realised volatility is elevated vs. typical sessions.'')
      else (''Calm'', ''24h realised volatility is subdued in majors.''))"

definition liqOf :: "number \<Rightarrow> string \<times> string" where
  "liqOf totalVol =
     (if numGt totalVol 50000000000
        then (''Deep'', ''Liquidity conditions are strong across BTC & ETH.'')
      else if numGt totalVol 20000000000
        then (''Normal'', ''Liquidity looks in line with recent averages.'')
      else if numGt totalVol 0
        then (''Thinner'', ''Volumes are lighter than usual, watch for slippage.'')
      else (''Unknown'', ''Awaiting volume data.''))"

text \<open>The snapshot \<^verbatim>\<open>loadMacro\<close> passes to \<^verbatim>\<open>setMacro\<close>.\<close>

definition macroOf :: "float_ops \<Rightarrow> price_data \<Rightarrow> macro" where
  "macroOf ops data =
     (let avgChg = avgChgOf ops data;
          totalVol = totalVolOf ops data
      in \<lparr>trendLabel = fst (trendOf avgChg),
          trendDesc = snd (trendOf avgChg),
          volaLabel = fst (volaOf avgChg),
          volaDesc = snd (volaOf avgChg),
          liqLabel = fst (liqOf totalVol),
          liqDesc = snd (liqOf totalVol)\<rparr>)"

text \<open>\<^verbatim>\<open>loadMacro\<close> as a step on the state \<^verbatim>\<open>macro\<close>; \<open>fetched\<close> is \<open>None\<close> when the fetch
  or the parse threw.\<close>

definition loadMacro :: "float_ops \<Rightarrow> price_data option \<Rightarrow> macro \<Rightarrow> macro" where
  "loadMacro ops fetched m = (case fetched of None \<Rightarrow> m | Some data \<Rightarrow> macroOf ops data)"

subsection \<open>Trade idea engine\<close>

text \<open>The en dash in the source's \<^verbatim>\<open>horizon\<close> texts is a code unit above 255; it is
  written as a hyphen here.\<close>

record idea =
  idea_id :: string
  idea_tag :: string
  idea_category :: string
  idea_edge :: string
  idea_conviction :: string
  idea_title :: string
  idea_summary :: string
  idea_horizon :: string
  idea_risk :: string

definition longBtc :: "news_item list \<Rightarrow> news_item list \<Rightarrow> idea" where
  "longBtc bullish bearish =
     \<lparr>idea_id = ''long-btc'',
      idea_tag = ''LONG BTC PERP'',
      idea_category = ''Directional'',
      idea_edge = ''+1.6%'',
      idea_conviction = (if length bullish > length bearish then ''High'' else ''Medium''),
      idea_title = ''Align with macro bull impulse'',
      idea_summary = ''Macro environment shows bullish pressure with supportive high-impact headlines. AI models lean long BTC.'',
      idea_horizon = ''4-12h'',
      idea_risk = ''Stop below local lows. Reduce size if volatility flips into High Stress.''\<rparr>"

definition shortBtc :: "news_item list \<Rightarrow> news_item list \<Rightarrow> idea" where
  "shortBtc bullish bearish =
     \<lparr>idea_id = ''short-btc'',
      idea_tag = ''SHORT BTC PERP'',
      idea_category = ''Directional'',
      idea_edge = ''+1.9%'',
      idea_conviction = (if length bearish \<ge> length bullish then ''High'' else ''Medium''),
      idea_title = ''Fade macro downside pressure'',
      idea_summary = ''Bearish macro trend confirmed by high-impact negative news. AI models favour shorting BTC on bounces.'',
      idea_horizon = ''4-10h'',
      idea_risk = ''Avoid chasing lows. Stop above local highs.''\<rparr>"

definition ethAlt :: idea where
  "ethAlt =
     \<lparr>idea_id = ''eth-alt'',
      idea_tag = ''PAIRS TRADE'',
      idea_category = ''Relative Value'',
      idea_edge = ''+1.2%'',
      idea_conviction = ''Medium'',
      idea_title = ''Long ETH vs altcoin hype basket'',
      idea_summary = ''AI detects heavy altcoin narrative rotations while ETH remains liquidity anchor. Long ETH / short small alt basket.'',
      idea_horizon = ''1-3d'',
      idea_risk = ''Avoid overweighting single-name shorts. Maintain diversified hedge.''\<rparr>"

definition riskWarning :: idea where
  "riskWarning =
     \<lparr>idea_id = ''risk-warning'',
      idea_tag = ''RISK WATCH'',
      idea_category = ''Risk Management'',
      idea_edge = ''Protect PnL'',
      idea_conviction = ''High'',
      idea_title = ''Tighten exposure under stressed conditions'',
      idea_summary = ''Volatility or liquidity stress detected by macro engine. Reduce exposure & tighten stops.'',
      idea_horizon = ''Current session'',
      idea_risk = ''High risk of chop or liquidation cascades in thin conditions.''\<rparr>"

text \<open>The idea pushed for the high-impact item \<open>n\<close> at position \<open>idx\<close>; \<open>r\<close> is the random
  number of its \<^verbatim>\<open>edge\<close>.\<close>

definition newsIdea :: "(real \<Rightarrow> string) \<Rightarrow> draw \<Rightarrow> news_item \<Rightarrow> nat \<Rightarrow> idea" where
  "newsIdea numberToString r n idx =
     \<lparr>idea_id = ''news-idea-'' @ showNat idx,
      idea_tag =
        (if sentiment n = ''Bullish'' then ''MOMO LONG''
         else if sentiment n = ''Bearish'' then ''MOMO SHORT''
         else ''THEME IDEA''),
      idea_category = ''Narrative'',
      idea_edge = toFixed numberToString (drawValue r * 2 + 0.5) 1 @ ''%'',
      idea_conviction = (if idx mod 2 = 0 then ''Medium'' else ''Low''),
      idea_title = ''Play '' @ source n @ '' narrative on '' @ sentiment n @ '' flow'',
      idea_summary = take 120 (summary n) @ ''...'',
      idea_horizon = ''6-18h'',
      idea_risk = ''News-driven trade. Tight stops recommended.''\<rparr>"

definition noEdge :: idea where
  "noEdge =
     \<lparr>idea_id = ''no-edge'',
      idea_tag = ''NO STRONG EDGE'',
      idea_category = ''Neutral'',
      idea_edge = ''Flat'',
      idea_conviction = ''Low'',
      idea_title = ''No high-probability setups detected'',
      idea_summary = ''Macro + news signals do not align. AI recommends waiting for clearer asymmetry.'',
      idea_horizon = ''Wait'',
      idea_risk = ''Avoid forcing trades in low-edge environments.''\<rparr>"

definition topNews :: "news_item list \<Rightarrow> news_item list" where
  "topNews liveNews = take 50 liveNews"

definition highImpact :: "news_item list \<Rightarrow> news_item list" where
  "highImpact liveNews = filter (\<lambda>n. impact n = ''High'') (topNews liveNews)"

definition bullish :: "news_item list \<Rightarrow> news_item list" where
  "bullish liveNews = filter (\<lambda>n. sentiment n = ''Bullish'') (highImpact liveNews)"

definition bearish :: "news_item list \<Rightarrow> news_item list" where
  "bearish liveNews = filter (\<lambda>n. sentiment n = ''Bearish'') (highImpact liveNews)"

text \<open>Each block of the effect as the list it pushes onto \<^verbatim>\<open>ideas\<close>.\<close>

definition directional :: "macro \<Rightarrow> news_item list \<Rightarrow> idea list" where
  "directional m liveNews =
     (if js_includes (trendLabel m) ''Bull'' then [longBtc (bullish liveNews) (bearish liveNews)]
      else if js_includes (trendLabel m) ''Bear''
        then [shortBtc (bullish liveNews) (bearish liveNews)]
      else [])"

definition altFlow :: "news_item list \<Rightarrow> news_item list" where
  "altFlow liveNews =
     filter (\<lambda>n. source n = ''Cointelegraph'' \<or> source n = ''Coindesk'') (highImpact liveNews)"

definition relativeValue :: "news_item list \<Rightarrow> idea list" where
  "relativeValue liveNews = (if length (altFlow liveNews) > 0 then [ethAlt] else [])"

definition riskRegime :: "macro \<Rightarrow> idea list" where
  "riskRegime m =
     (if volaLabel m = ''High Stress'' \<or> liqLabel m = ''Thinner'' then [riskWarning] else [])"

text \<open>\<^verbatim>\<open>highImpact.slice(0, 5).forEach((n, idx) => ideas.push(...))\<close>, from position
  \<open>idx\<close> on; the call at position \<open>idx\<close> draws the random number \<open>rnd idx\<close>.\<close>

fun forEachFrom :: "(real \<Rightarrow> string) \<Rightarrow> (nat \<Rightarrow> draw) \<Rightarrow> nat \<Rightarrow> news_item list \<Rightarrow> idea list" where
  "forEachFrom numberToString rnd idx [] = []"
| "forEachFrom numberToString rnd idx (n # ns) =
     newsIdea numberToString (rnd idx) n idx # forEachFrom numberToString rnd (idx + 1) ns"

definition narrative :: "(real \<Rightarrow> string) \<Rightarrow> (nat \<Rightarrow> draw) \<Rightarrow> news_item list \<Rightarrow> idea list" where
  "narrative numberToString rnd liveNews =
     forEachFrom numberToString rnd 0 (take 5 (highImpact liveNews))"

text \<open>The array \<^verbatim>\<open>ideas\<close> when the effect reaches the fallback check.\<close>

definition ruleIdeas ::
  "(real \<Rightarrow> string) \<Rightarrow> (nat \<Rightarrow> draw) \<Rightarrow> macro \<Rightarrow> news_item list \<Rightarrow> idea list" where
  "ruleIdeas numberToString rnd m liveNews =
     [] @ directional m liveNews @ relativeValue liveNews @ riskRegime m
        @ narrative numberToString rnd liveNews"

text \<open>The array passed to \<^verbatim>\<open>setTradeIdeas\<close>.\<close>

definition buildIdeas ::
  "(real \<Rightarrow> string) \<Rightarrow> (nat \<Rightarrow> draw) \<Rightarrow> macro \<Rightarrow> news_item list \<Rightarrow> idea list" where
  "buildIdeas numberToString rnd m liveNews =
     (let ideas = ruleIdeas numberToString rnd m liveNews in
      if length ideas = 0 then ideas @ [noEdge] else ideas)"

text \<open>One run of the effect: \<open>None\<close> when it returns at its guard and sets nothing,
  \<open>Some ideas\<close> when it calls \<^verbatim>\<open>setTradeIdeas(ideas)\<close>.\<close>

definition tradeIdeaEngine ::
  "(real \<Rightarrow> string) \<Rightarrow> (nat \<Rightarrow> draw) \<Rightarrow> macro \<Rightarrow> news_item list \<Rightarrow> idea list option" where
  "tradeIdeaEngine numberToString rnd m liveNews =
     (if liveNews = [] then None else Some (buildIdeas numberToString rnd m liveNews))"

subsection \<open>The id rule of the data model\<close>

text \<open>The id of a NewsItem in the specification's words: the guid if present, else the
  link if present, else a fallback composed from provider and title. A field that is an
  empty string counts as absent, and a raw item without a title is titled Untitled.\<close>

definition derivedId :: "string \<Rightarrow> raw_item \<Rightarrow> string" where
  "derivedId provider item =
     (let present = (\<lambda>f. f \<noteq> None \<and> f \<noteq> Some []);
          t = (if present (raw_title item) then the (raw_title item) else ''Untitled'')
      in if present (raw_guid item) then the (raw_guid item)
         else if present (raw_link item) then the (raw_link item)
         else provider @ ''-'' @ t)"

text \<open>The ids of all raw items of the payloads \<open>ps\<close>, the first payload paired with the
  endpoint at index \<open>i\<close>, the next with the one after it.\<close>

fun derivedIds :: "nat \<Rightarrow> payload list \<Rightarrow> string list" where
  "derivedIds i [] = []"
| "derivedIds i (res # rest) =
     map (derivedId (name (EXCHANGE_NEWS_ENDPOINTS ! i))) (itemsOf res) @ derivedIds (i + 1) rest"

text \<open>The sources of the items of the payloads \<open>ps\<close>, the first payload paired with
  the endpoint at index \<open>i\<close>: each item carries the name of its payload's endpoint.\<close>

fun sourcesFrom :: "nat \<Rightarrow> payload list \<Rightarrow> string list" where
  "sourcesFrom i [] = []"
| "sourcesFrom i (res # rest) =
     replicate (length (itemsOf res)) (name (EXCHANGE_NEWS_ENDPOINTS ! i)) @ sourcesFrom (i + 1) rest"

subsection \<open>What a text contains\<close>

text \<open>The regular expression behind the matcher \<open>m\<close> matches at the start of \<open>s\<close>.\<close>

definition matchesAt :: "(string \<Rightarrow> nat option) \<Rightarrow> string \<Rightarrow> bool" where
  "matchesAt m s = (case m s of None \<Rightarrow> False | Some k \<Rightarrow> True)"

text \<open>The text has a substring that the regular expression matches: the expression
  matches at some position.\<close>

fun containsMatch :: "(string \<Rightarrow> nat option) \<Rightarrow> string \<Rightarrow> bool" where
  "containsMatch m [] = False"
| "containsMatch m (c # cs) = (matchesAt m (c # cs) \<or> containsMatch m cs)"

definition hasUrl :: "string \<Rightarrow> bool" where
  "hasUrl s = containsMatch urlLen s"

definition hasTag :: "string \<Rightarrow> bool" where
  "hasTag s = containsMatch tagLen s"

text \<open>The first word of a text: its characters up to the first white space.\<close>

abbreviation tok :: "string \<Rightarrow> string" where
  "tok s \<equiv> takeWhile (\<lambda>c. \<not> isSpace c) s"

text \<open>A word starts like a URL: a scheme and at least one more character.\<close>

definition urlTok :: "string \<Rightarrow> bool" where
  "urlTok t \<longleftrightarrow> (prefix ''https://'' t \<and> 8 < length t) \<or> (prefix ''http://'' t \<and> 7 < length t)"

subsection \<open>Inputs used in the examples\<close>

text \<open>A price answer that holds the two reference assets with the given 24h change and 24h
  volume each.\<close>

definition quotes :: "real option \<Rightarrow> real option \<Rightarrow> real option \<Rightarrow> real option \<Rightarrow> price_data" where
  "quotes c1 v1 c2 v2 =
     map_of [(''bitcoin'', \<lparr>usd = None, usd_24h_change = c1, usd_24h_vol = v1\<rparr>),
             (''ethereum'', \<lparr>usd = None, usd_24h_change = c2, usd_24h_vol = v2\<rparr>)]"

text \<open>Double operations for the examples. At operands whose exact sum or quotient is a
  double the IEEE result is that exact value, and a sum of magnitude \<open>2^1024\<close> or more
  overflows to an infinity; \<open>exactOps\<close> gives these results. The examples use it at such
  operands only.\<close>

definition exactOps :: float_ops where
  "exactOps =
     \<lparr>fadd = (\<lambda>a b. if 2 ^ 1024 \<le> a + b then PosInfinity
                      else if a + b \<le> - (2 ^ 1024) then NegInfinity
                      else Finite (a + b)),
      fdiv = (\<lambda>x c. case x of
                        Finite v \<Rightarrow> Finite (v / c)
                      | PosInfinity \<Rightarrow> PosInfinity
                      | NegInfinity \<Rightarrow> NegInfinity)\<rparr>"

text \<open>A large double: twice its value is beyond the doubles.\<close>

definition huge :: real where
  "huge = 2 ^ 1023"

text \<open>The double that the literal \<^verbatim>\<open>3.01\<close> denotes: the double nearest to 3.01. Between 2
  and 4 the doubles are the multiples of \<open>1 / 2^51\<close>.\<close>

definition double_3_01 :: real where
  "double_3_01 = 1694479359798149 / 2 ^ 49"

text \<open>A raw item with a title and nothing else set; a raw item with a guid and a title;
  a feed response holding the given items.\<close>

definition headline :: "string \<Rightarrow> raw_item" where
  "headline t =
     \<lparr>raw_title = Some t, raw_description = None, raw_pubDate = None, raw_guid = None,
      raw_link = None\<rparr>"

definition entry :: "string \<Rightarrow> string \<Rightarrow> raw_item" where
  "entry g t =
     \<lparr>raw_title = Some t, raw_description = None, raw_pubDate = None, raw_guid = Some g,
      raw_link = None\<rparr>"

definition feed :: "raw_item list \<Rightarrow> payload" where
  "feed items = \<lparr>raw_items = Some items\<rparr>"

text \<open>A DOM whose element text is the markup itself, as a browser gives for a text without
  tags and entities.\<close>

definition plainDom :: dom where
  "plainDom = Some (\<lambda>html. Some html)"

text \<open>A NewsItem of the given source, category, impact and sentiment.\<close>

definition story :: "string \<Rightarrow> string \<Rightarrow> string \<Rightarrow> string \<Rightarrow> news_item" where
  "story src cat imp sent =
     \<lparr>item_id = src @ ''-Headline'', title = ''Headline'', source = src, timeAgo = [],
      impact = imp, sentiment = sent, priceMove = ''N/A'', category = cat,
      summary = ''No summary available.'', tags = [src, cat]\<rparr>"

text \<open>A price answer that holds the listed assets, each with its 24h change only.\<close>

definition prices :: "(string \<times> real option) list \<Rightarrow> price_data" where
  "prices xs =
     map_of (map (\<lambda>(k, c). (k, \<lparr>usd = None, usd_24h_change = c, usd_24h_vol = None\<rparr>)) xs)"

section \<open>Properties\<close>

subsection \<open>Macro regime estimator\<close>

lemma fst_trendOf:
  "fst (trendOf x) =
     (if numGt x 3 then ''Strong Bull'' else if numGt x 1 then ''Mild Bull''
      else if numLt x (- 3) then ''Strong Bear'' else if numLt x (- 1) then ''Mild Bear''
      else ''Sideways'')"
  by (simp add: trendOf_def)

lemma fst_volaOf:
  "fst (volaOf x) =
     (if numGt (mathAbs x) 4 then ''High Stress'' else if numGt (mathAbs x) 2 then ''Elevated''
      else ''Calm'')"
  by (simp add: volaOf_def)

lemma fst_liqOf:
  "fst (liqOf x) =
     (if numGt x 50000000000 then ''Deep'' else if numGt x 20000000000 then ''Normal''
      else if numGt x 0 then ''Thinner'' else ''Unknown'')"
  by (simp add: liqOf_def)

lemma loadMacro_labels:
  "trendLabel (loadMacro ops (Some data) m) = fst (trendOf (avgChgOf ops data))"
  "volaLabel (loadMacro ops (Some data) m) = fst (volaOf (avgChgOf ops data))"
  "liqLabel (loadMacro ops (Some data) m) = fst (liqOf (totalVolOf ops data))"
  by (simp_all add: loadMacro_def macroOf_def Let_def)

lemma number_tests [simp]:
  "numGt (Finite v) c \<longleftrightarrow> v > c" "numGt PosInfinity c" "\<not> numGt NegInfinity c"
  "numLt (Finite v) c \<longleftrightarrow> v < c" "\<not> numLt PosInfinity c" "numLt NegInfinity c"
  "mathAbs (Finite v) = Finite \<bar>v\<bar>" "mathAbs PosInfinity = PosInfinity"
  "mathAbs NegInfinity = PosInfinity"
  by (simp_all add: numGt_def numLt_def mathAbs_def)

lemma trend_vola_cases:
  "(case x of
      Finite a \<Rightarrow>
        fst (trendOf x) =
          (if a > 3 then ''Strong Bull''
           else if a > 1 then ''Mild Bull''
           else if a < - 3 then ''Strong Bear''
           else if a < - 1 then ''Mild Bear''
           else ''Sideways'') \<and>
        fst (volaOf x) =
          (if \<bar>a\<bar> > 4 then ''High Stress''
           else if \<bar>a\<bar> > 2 then ''Elevated''
           else ''Calm'')
    | PosInfinity \<Rightarrow> fst (trendOf x) = ''Strong Bull'' \<and> fst (volaOf x) = ''High Stress''
    | NegInfinity \<Rightarrow> fst (trendOf x) = ''Strong Bear'' \<and> fst (volaOf x) = ''High Stress'')"
  by (cases x) (simp_all add: fst_trendOf fst_volaOf)

lemma liq_cases:
  "(case x of
      Finite v \<Rightarrow>
        fst (liqOf x) =
          (if v > 50 * 10 ^ 9 then ''Deep''
           else if v > 20 * 10 ^ 9 then ''Normal''
           else if v > 0 then ''Thinner''
           else ''Unknown'')
    | PosInfinity \<Rightarrow> fst (liqOf x) = ''Deep''
    | NegInfinity \<Rightarrow> fst (liqOf x) = ''Unknown'')"
  by (cases x) (simp_all add: fst_liqOf)

lemma labels_at_zero:
  "fst (trendOf (Finite 0)) = ''Sideways''" "fst (volaOf (Finite 0)) = ''Calm''"
  "fst (liqOf (Finite 0)) = ''Unknown''"
  by (simp_all add: fst_trendOf fst_volaOf fst_liqOf)

text \<open>
  Claim C6. For every answer of the price source, with \<open>chg1\<close>, \<open>chg2\<close> the 24h changes
  and \<open>vol1\<close>, \<open>vol2\<close> the 24h volumes of the two reference assets (a missing figure
  counting as 0), let \<open>avgChange\<close> be the average \<^verbatim>\<open>(chg1 + chg2) / 2\<close> and \<open>totalVolume\<close>
  the sum \<^verbatim>\<open>vol1 + vol2\<close> as the double arithmetic computes them. The snapshot that
  \<^verbatim>\<open>loadMacro\<close> sets has the trend Strong Bull if \<open>avgChange > 3\<close>, else Mild Bull if
  \<open>> 1\<close>, else Strong Bear if \<open>< -3\<close>, else Mild Bear if \<open>< -1\<close>, else Sideways; the
  volatility High Stress if \<open>\<bar>avgChange\<bar> > 4\<close>, else Elevated if \<open>> 2\<close>, else Calm; the
  liquidity Deep if \<open>totalVolume > 50e9\<close>, else Normal if \<open>> 20e9\<close>, else Thinner if
  \<open>> 0\<close>, else Unknown. An average or a total that overflowed to an infinity falls under
  the same rules. When all four figures are missing, so that the code adds 0 and 0 and
  halves the result, the labels are Sideways, Calm and Unknown.
\<close>

theorem macro_thresholds:
  "(let btc = entryOr (data ''bitcoin'');
        eth = entryOr (data ''ethereum'');
        chg1 = (case usd_24h_change btc of None \<Rightarrow> 0 | Some c \<Rightarrow> c);
        chg2 = (case usd_24h_change eth of None \<Rightarrow> 0 | Some c \<Rightarrow> c);
        vol1 = (case usd_24h_vol btc of None \<Rightarrow> 0 | Some v \<Rightarrow> v);
        vol2 = (case usd_24h_vol eth of None \<Rightarrow> 0 | Some v \<Rightarrow> v);
        avgChange = fdiv ops (fadd ops chg1 chg2) 2;
        totalVolume = fadd ops vol1 vol2;
        r = loadMacro ops (Some data) m
    in (case avgChange of
          Finite a \<Rightarrow>
            trendLabel r =
              (if a > 3 then ''Strong Bull''
               else if a > 1 then ''Mild Bull''
               else if a < - 3 then ''Strong Bear''
               else if a < - 1 then ''Mild Bear''
               else ''Sideways'') \<and>
            volaLabel r =
              (if \<bar>a\<bar> > 4 then ''High Stress''
               else if \<bar>a\<bar> > 2 then ''Elevated''
               else ''Calm'')
        | PosInfinity \<Rightarrow> trendLabel r = ''Strong Bull'' \<and> volaLabel r = ''High Stress''
        | NegInfinity \<Rightarrow> trendLabel r = ''Strong Bear'' \<and> volaLabel r = ''High Stress'') \<and>
       (case totalVolume of
          Finite v \<Rightarrow>
            liqLabel r =
              (if v > 50 * 10 ^ 9 then ''Deep''
               else if v > 20 * 10 ^ 9 then ''Normal''
               else if v > 0 then ''Thinner''
               else ''Unknown'')
        | PosInfinity \<Rightarrow> liqLabel r = ''Deep''
        | NegInfinity \<Rightarrow> liqLabel r = ''Unknown'') \<and>
       (usd_24h_change btc = None \<and> usd_24h_change eth = None \<and>
        usd_24h_vol btc = None \<and> usd_24h_vol eth = None \<and>
        fadd ops 0 0 = Finite 0 \<and> fdiv ops (Finite 0) 2 = Finite 0 \<longrightarrow>
        trendLabel r = ''Sideways'' \<and> volaLabel r = ''Calm'' \<and> liqLabel r = ''Unknown''))"
proof -
  let ?c1 = "case usd_24h_change (entryOr (data ''bitcoin'')) of None \<Rightarrow> 0 | Some c \<Rightarrow> c"
  let ?c2 = "case usd_24h_change (entryOr (data ''ethereum'')) of None \<Rightarrow> 0 | Some c \<Rightarrow> c"
  let ?v1 = "case usd_24h_vol (entryOr (data ''bitcoin'')) of None \<Rightarrow> 0 | Some v \<Rightarrow> v"
  let ?v2 = "case usd_24h_vol (entryOr (data ''ethereum'')) of None \<Rightarrow> 0 | Some v \<Rightarrow> v"
  let ?r = "loadMacro ops (Some data) m"
  have avg: "avgChgOf ops data = fdiv ops (fadd ops ?c1 ?c2) 2"
    by (simp add: avgChgOf_def numberOr0_def)
  have vol: "totalVolOf ops data = fadd ops ?v1 ?v2"
    by (simp add: totalVolOf_def numberOr0_def)
  have lab: "trendLabel ?r = fst (trendOf (fdiv ops (fadd ops ?c1 ?c2) 2))"
    "volaLabel ?r = fst (volaOf (fdiv ops (fadd ops ?c1 ?c2) 2))"
    "liqLabel ?r = fst (liqOf (fadd ops ?v1 ?v2))"
    by (simp_all only: loadMacro_labels avg vol)
  have missing: "trendLabel ?r = ''Sideways'' \<and> volaLabel ?r = ''Calm'' \<and> liqLabel ?r = ''Unknown''"
    if "usd_24h_change (entryOr (data ''bitcoin'')) = None"
      "usd_24h_change (entryOr (data ''ethereum'')) = None"
      "usd_24h_vol (entryOr (data ''bitcoin'')) = None"
      "usd_24h_vol (entryOr (data ''ethereum'')) = None"
      "fadd ops 0 0 = Finite 0" "fdiv ops (Finite 0) 2 = Finite 0"
    using that by (simp add: lab labels_at_zero)
  from trend_vola_cases [of "fdiv ops (fadd ops ?c1 ?c2) 2"] liq_cases [of "fadd ops ?v1 ?v2"]
    missing
  show ?thesis
    unfolding Let_def lab by blast
qed

text \<open>The example operations at the operands the examples use.\<close>

lemma exactOps_fadd:
  "- (2 ^ 1024) < a + b \<Longrightarrow> a + b < 2 ^ 1024 \<Longrightarrow> fadd exactOps a b = Finite (a + b)"
  by (simp add: exactOps_def)

lemma exactOps_overflow: "2 ^ 1024 \<le> a + b \<Longrightarrow> fadd exactOps a b = PosInfinity"
  by (simp add: exactOps_def)

lemma exactOps_fdiv:
  "fdiv exactOps (Finite v) c = Finite (v / c)" "fdiv exactOps PosInfinity c = PosInfinity"
  by (simp_all add: exactOps_def)

lemma exactOps_zero: "fadd exactOps 0 0 = Finite 0"
  by (simp add: exactOps_fadd)

text \<open>The theorem at three inputs: an answer with no asset at all (0 + 0 and 0 / 2 are
  exact); BTC +5% on a volume of 10e9 with ETH +4% on 5e9 (the sums 9 and 15e9 and the
  average 4.5 are doubles, so the double arithmetic gives them exactly); and two changes of
  \<open>2^1023\<close>, whose sum overflows to an infinity.\<close>

theorem macro_thresholds_witness:
  "trendLabel (loadMacro exactOps (Some (\<lambda>k. None)) initialMacro) = ''Sideways'' \<and>
   volaLabel (loadMacro exactOps (Some (\<lambda>k. None)) initialMacro) = ''Calm'' \<and>
   liqLabel (loadMacro exactOps (Some (\<lambda>k. None)) initialMacro) = ''Unknown'' \<and>
   trendLabel (loadMacro exactOps
     (Some (quotes (Some 5) (Some (10 * 10 ^ 9)) (Some 4) (Some (5 * 10 ^ 9)))) initialMacro)
     = ''Strong Bull'' \<and>
   volaLabel (loadMacro exactOps
     (Some (quotes (Some 5) (Some (10 * 10 ^ 9)) (Some 4) (Some (5 * 10 ^ 9)))) initialMacro)
     = ''High Stress'' \<and>
   liqLabel (loadMacro exactOps
     (Some (quotes (Some 5) (Some (10 * 10 ^ 9)) (Some 4) (Some (5 * 10 ^ 9)))) initialMacro)
     = ''Thinner'' \<and>
   trendLabel (loadMacro exactOps
     (Some (quotes (Some huge) None (Some huge) None)) initialMacro)
     = ''Strong Bull'' \<and>
   volaLabel (loadMacro exactOps
     (Some (quotes (Some huge) None (Some huge) None)) initialMacro)
     = ''High Stress''"
proof -
  have s1: "fadd exactOps 5 4 = Finite 9"
    using exactOps_fadd [of 5 4] by simp
  have s2: "fadd exactOps 10000000000 5000000000 = Finite 15000000000"
    using exactOps_fadd [of 10000000000 5000000000] by simp
  have s3: "fadd exactOps huge huge = PosInfinity"
    using exactOps_overflow [of huge huge] by (simp add: huge_def)
  have w1: "trendLabel (loadMacro exactOps (Some (\<lambda>k. None)) initialMacro) = ''Sideways'' \<and>
      volaLabel (loadMacro exactOps (Some (\<lambda>k. None)) initialMacro) = ''Calm'' \<and>
      liqLabel (loadMacro exactOps (Some (\<lambda>k. None)) initialMacro) = ''Unknown''"
    using macro_thresholds [of "\<lambda>k. None" exactOps initialMacro]
    by (simp add: Let_def entryOr_def exactOps_zero exactOps_fdiv)
  let ?d = "quotes (Some 5) (Some (10 * 10 ^ 9)) (Some 4) (Some (5 * 10 ^ 9))"
  have w2: "trendLabel (loadMacro exactOps (Some ?d) initialMacro) = ''Strong Bull'' \<and>
      volaLabel (loadMacro exactOps (Some ?d) initialMacro) = ''High Stress'' \<and>
      liqLabel (loadMacro exactOps (Some ?d) initialMacro) = ''Thinner''"
    using macro_thresholds [of ?d exactOps initialMacro]
    by (simp add: Let_def entryOr_def quotes_def s1 s2 exactOps_fdiv)
  let ?e = "quotes (Some huge) None (Some huge) None"
  have w3: "trendLabel (loadMacro exactOps (Some ?e) initialMacro) = ''Strong Bull'' \<and>
      volaLabel (loadMacro exactOps (Some ?e) initialMacro) = ''High Stress''"
    using macro_thresholds [of ?e exactOps initialMacro]
    by (simp add: Let_def entryOr_def quotes_def s3 exactOps_fdiv)
  from w1 w2 w3 show ?thesis by simp
qed

text \<open>The double for 3.01 is a multiple of \<open>1 / 2^51\<close> within half a step of 3.01, and it is
  above 3.\<close>

lemma double_3_01_nearest:
  "double_3_01 = 6777917439192596 / 2 ^ 51" "\<bar>double_3_01 - 3.01\<bar> \<le> 1 / 2 ^ 52"
  "3 < double_3_01"
  by (simp_all add: double_3_01_def)

text \<open>
  Claim C4, as the code has it. For inputs whose computed average change is exactly 3.0
  the trend label is Mild Bull: the Strong Bull rule asks for more than 3, and the next
  rule, more than 1, holds. For a computed average change of 3.01 (the double that this
  literal denotes) the trend label is Strong Bull.
\<close>

theorem trend_boundary:
  "(avgChgOf ops data = Finite 3 \<longrightarrow>
      trendLabel (loadMacro ops (Some data) m) = ''Mild Bull'') \<and>
   (avgChgOf ops data = Finite double_3_01 \<longrightarrow>
      trendLabel (loadMacro ops (Some data) m) = ''Strong Bull'')"
  using double_3_01_nearest(3) by (simp add: loadMacro_labels fst_trendOf)

text \<open>The theorem at two inputs: both changes 3, where the sum 6 and its half are exact, and
  both changes the double for 3.01, where the sum is the double of twice the value and its
  half is the value again.\<close>

theorem trend_boundary_witness:
  "avgChgOf exactOps (quotes (Some 3) None (Some 3) None) = Finite 3 \<and>
   trendLabel (loadMacro exactOps (Some (quotes (Some 3) None (Some 3) None)) initialMacro)
     = ''Mild Bull'' \<and>
   avgChgOf exactOps (quotes (Some double_3_01) None (Some double_3_01) None)
     = Finite double_3_01 \<and>
   trendLabel (loadMacro exactOps
     (Some (quotes (Some double_3_01) None (Some double_3_01) None)) initialMacro)
     = ''Strong Bull''"
proof -
  have "fadd exactOps 3 3 = Finite 6"
    using exactOps_fadd [of 3 3] by simp
  then have a: "avgChgOf exactOps (quotes (Some 3) None (Some 3) None) = Finite 3"
    by (simp add: avgChgOf_def quotes_def entryOr_def numberOr0_def exactOps_fdiv)
  have "double_3_01 + double_3_01 < 2 ^ 1024" "- (2 ^ 1024) < double_3_01 + double_3_01"
    by (simp_all add: double_3_01_def)
  then have "fadd exactOps double_3_01 double_3_01 = Finite (double_3_01 + double_3_01)"
    by (simp add: exactOps_fadd)
  then have b: "avgChgOf exactOps (quotes (Some double_3_01) None (Some double_3_01) None)
      = Finite double_3_01"
    by (simp add: avgChgOf_def quotes_def entryOr_def numberOr0_def exactOps_fdiv)
  from a b trend_boundary [of exactOps "quotes (Some 3) None (Some 3) None" initialMacro]
    trend_boundary [of exactOps "quotes (Some double_3_01) None (Some double_3_01) None"
      initialMacro]
  show ?thesis by simp
qed

text \<open>Claim C4 as the specification words it fails: with both changes at 3 the computed
  average is exactly 3 and the label is not Sideways.\<close>

theorem trend_boundary_counterexample:
  "avgChgOf exactOps (quotes (Some 3) None (Some 3) None) = Finite 3 \<and>
   trendLabel (loadMacro exactOps (Some (quotes (Some 3) None (Some 3) None)) initialMacro)
     \<noteq> ''Sideways''"
proof -
  have "fadd exactOps 3 3 = Finite 6"
    using exactOps_fadd [of 3 3] by simp
  then have "avgChgOf exactOps (quotes (Some 3) None (Some 3) None) = Finite 3"
    by (simp add: avgChgOf_def quotes_def entryOr_def numberOr0_def exactOps_fdiv)
  then show ?thesis by (simp add: loadMacro_labels fst_trendOf)
qed

subsection \<open>Asset correlator\<close>

lemma showNat_small: "n < 10 \<Longrightarrow> showNat n = [digitChar n]"
  by (simp add: showNat.simps)

lemma showNat_big: "10 \<le> n \<Longrightarrow> showNat n = showNat (n div 10) @ [digitChar (n mod 10)]"
  by (subst showNat.simps) simp

lemma length_showNat_pos: "0 < length (showNat n)"
  by (subst showNat.simps) simp

lemma showNat_two_digits:
  "10 \<le> n \<Longrightarrow> n < 100 \<Longrightarrow> showNat n = [digitChar (n div 10), digitChar (n mod 10)]"
  by (simp add: showNat_big showNat_small)

lemma showNat_hundreds:
  assumes "100 \<le> n"
  shows "showNat n = showNat (n div 100) @ [digitChar (n div 10 mod 10), digitChar (n mod 10)]"
proof -
  from assms have a: "10 \<le> n" and b: "10 \<le> n div 10" by simp_all
  have "n div 10 div 10 = n div (10 * 10)" by (rule div_mult2_eq [symmetric])
  then have e: "n div 10 div 10 = n div 100" by simp
  have "showNat n = showNat (n div 10) @ [digitChar (n mod 10)]"
    using a by (rule showNat_big)
  also have "showNat (n div 10) = showNat (n div 10 div 10) @ [digitChar (n div 10 mod 10)]"
    using b by (rule showNat_big)
  finally show ?thesis unfolding e by simp
qed

text \<open>What \<^verbatim>\<open>toFixed(2)\<close> prints below \<open>10^21\<close>: the sign, the integer part, the point
  and two digits of the number rounded to hundredths.\<close>

lemma toFixed2_digits:
  assumes "\<bar>x\<bar> < 10 ^ 21"
  shows "toFixed ts x 2 =
     (if x < 0 then ''-'' else []) @
     (let n = nat \<lfloor>\<bar>x\<bar> * 100 + 1 / 2\<rfloor>
      in showNat (n div 100) @ ''.'' @ [digitChar (n div 10 mod 10), digitChar (n mod 10)])"
proof -
  define n where "n = nat \<lfloor>\<bar>x\<bar> * 100 + 1 / 2\<rfloor>"
  consider (a) "n < 10" | (b) "10 \<le> n" "n < 100" | (c) "100 \<le> n" by linarith
  then have "(let m = showNat n; k = length m;
                 z = (if k \<le> 2 then replicate (2 + 1 - k) CHR ''0'' @ m else m);
                 k' = (if k \<le> 2 then 2 + 1 else k)
             in take (k' - 2) z @ ''.'' @ drop (k' - 2) z) =
            showNat (n div 100) @ ''.'' @ [digitChar (n div 10 mod 10), digitChar (n mod 10)]"
  proof cases
    case a
    then show ?thesis by (simp add: showNat_small digitChar_def)
  next
    case b
    then show ?thesis by (simp add: showNat_two_digits showNat_small digitChar_def)
  next
    case c
    have "0 < length (showNat (n div 100))" by (rule length_showNat_pos)
    with c show ?thesis by (simp add: showNat_hundreds)
  qed
  with assms show ?thesis
    by (simp add: toFixed_def Let_def n_def)
qed

lemma enrich_frame:
  "item_id (enrich ts data x) = item_id x"
  "title (enrich ts data x) = title x"
  "source (enrich ts data x) = source x"
  "timeAgo (enrich ts data x) = timeAgo x"
  "category (enrich ts data x) = category x"
  "summary (enrich ts data x) = summary x"
  "sentiment (enrich ts data x) = sentiment x"
  "impact (enrich ts data x) = impact x"
  "tags (enrich ts data x) = tags x"
  by (simp_all add: enrich_def Let_def split: option.splits)

lemma tokens_Nil: "tokens xs = [] \<longleftrightarrow> xs = []"
  by (simp add: tokens_def)

lemma loadCorrelatedMoves_map:
  "loadCorrelatedMoves ts (Some data) liveNews = map (enrich ts data) liveNews"
  by (simp add: loadCorrelatedMoves_def tokens_Nil)

text \<open>
  Claim C9. For every list of NewsItems and every outcome of the price fetch, the list that
  \<^verbatim>\<open>loadCorrelatedMoves\<close> leaves in \<^verbatim>\<open>liveNews\<close> has the same length, and item by
  item the same id, title, source, publish date (\<^verbatim>\<open>timeAgo\<close>), category, summary,
  sentiment, impact level and tags as the input: only \<^verbatim>\<open>priceMove\<close> may differ.
\<close>

theorem enrichment_frame:
  "length (loadCorrelatedMoves ts fetched liveNews) = length liveNews \<and>
   map item_id (loadCorrelatedMoves ts fetched liveNews) = map item_id liveNews \<and>
   map title (loadCorrelatedMoves ts fetched liveNews) = map title liveNews \<and>
   map source (loadCorrelatedMoves ts fetched liveNews) = map source liveNews \<and>
   map timeAgo (loadCorrelatedMoves ts fetched liveNews) = map timeAgo liveNews \<and>
   map category (loadCorrelatedMoves ts fetched liveNews) = map category liveNews \<and>
   map summary (loadCorrelatedMoves ts fetched liveNews) = map summary liveNews \<and>
   map sentiment (loadCorrelatedMoves ts fetched liveNews) = map sentiment liveNews \<and>
   map impact (loadCorrelatedMoves ts fetched liveNews) = map impact liveNews \<and>
   map tags (loadCorrelatedMoves ts fetched liveNews) = map tags liveNews"
proof (cases fetched)
  case None
  then show ?thesis by (simp add: loadCorrelatedMoves_def)
next
  case (Some data)
  then show ?thesis by (simp add: loadCorrelatedMoves_map enrich_frame comp_def)
qed

lemma priceMove_enrich:
  "priceMove (enrich ts data x) =
     (case data (assetOf (category x)) of
        None \<Rightarrow> ''N/A''
      | Some info \<Rightarrow>
          (case usd_24h_change info of
             None \<Rightarrow> ''N/A''
           | Some pct \<Rightarrow> (if pct > 0 then ''+'' else []) @ toFixed ts pct 2 @ ''%''))"
  by (simp add: enrich_def Let_def split: option.splits)

text \<open>
  Claim C8, as the code has it. For the item at position \<open>i\<close> and a price answer in which
  the change of the item's asset, if given, is below \<open>10^21\<close> in magnitude:
  \<^verbatim>\<open>priceMove\<close> is N/A when the answer has no entry for the asset
  \<open>assetOf (category item)\<close> or the entry has no change figure; otherwise it is the change
  rounded to hundredths (a tie away from zero), printed with exactly two decimals and a
  percent sign, with a leading plus for a change above zero, a leading minus for a change
  below zero, and no sign for a change of exactly zero.
\<close>

theorem price_move_format:
  assumes "i < length liveNews"
    and "\<And>info pct. data (assetOf (category (liveNews ! i))) = Some info \<Longrightarrow>
           usd_24h_change info = Some pct \<Longrightarrow> \<bar>pct\<bar> < 10 ^ 21"
  shows "priceMove (loadCorrelatedMoves ts (Some data) liveNews ! i) =
     (case data (assetOf (category (liveNews ! i))) of
        None \<Rightarrow> ''N/A''
      | Some info \<Rightarrow>
          (case usd_24h_change info of
             None \<Rightarrow> ''N/A''
           | Some pct \<Rightarrow>
               (let n = nat \<lfloor>\<bar>pct\<bar> * 100 + 1 / 2\<rfloor> in
                (if pct > 0 then ''+'' else if pct < 0 then ''-'' else []) @
                showNat (n div 100) @ ''.'' @
                [digitChar (n div 10 mod 10), digitChar (n mod 10)] @ ''%'')))"
  using assms
  by (auto simp: loadCorrelatedMoves_map priceMove_enrich Let_def toFixed2_digits
      split: option.splits)

lemmas assetOf_eval = assetOf_def CATEGORY_ASSET_MAP_def

text \<open>The theorem at four items: a change of +2.5, one of -0.4375, an entry without a
  change figure and an asset that the answer does not hold.\<close>

theorem price_move_format_witness:
  "\<forall>ts.
     map priceMove
       (loadCorrelatedMoves ts
          (Some (prices [(''render-token'', Some 2.5), (''bitcoin'', Some (- 0.4375)),
                         (''solana'', None)]))
          [story ''Binance'' ''AI'' ''High'' ''Bullish'',
           story ''Coindesk'' ''General'' ''Low'' ''Neutral'',
           story ''OKX'' ''Solana'' ''Low'' ''Neutral'',
           story ''Bybit'' ''DeFi'' ''Low'' ''Neutral''])
     = [''+2.50%'', ''-0.44%'', ''N/A'', ''N/A'']"
proof
  fix ts
  define data where "data = prices [(''render-token'', Some 2.5), (''bitcoin'', Some (- 0.4375)),
                         (''solana'', None)]"
  define news where "news = [story ''Binance'' ''AI'' ''High'' ''Bullish'',
           story ''Coindesk'' ''General'' ''Low'' ''Neutral'',
           story ''OKX'' ''Solana'' ''Low'' ''Neutral'',
           story ''Bybit'' ''DeFi'' ''Low'' ''Neutral'']"
  let ?out = "loadCorrelatedMoves ts (Some data) news"
  have n: "length news = 4" by (simp add: news_def)
  have len: "length ?out = 4"
    by (simp add: loadCorrelatedMoves_map n)
  have c: "category (news ! 0) = ''AI''" "category (news ! Suc 0) = ''General''"
    "category (news ! 2) = ''Solana''" "category (news ! 3) = ''DeFi''"
    by (simp_all add: news_def story_def)
  have a: "assetOf ''AI'' = ''render-token''" "assetOf ''General'' = ''bitcoin''"
    "assetOf ''Solana'' = ''solana''" "assetOf ''DeFi'' = ''uniswap''"
    by (simp_all add: assetOf_eval)
  have d: "data ''render-token'' = Some \<lparr>usd = None, usd_24h_change = Some 2.5, usd_24h_vol = None\<rparr>"
    "data ''bitcoin'' = Some \<lparr>usd = None, usd_24h_change = Some (- 0.4375), usd_24h_vol = None\<rparr>"
    "data ''solana'' = Some \<lparr>usd = None, usd_24h_change = None, usd_24h_vol = None\<rparr>"
    "data ''uniswap'' = None"
    by (simp_all add: data_def prices_def)
  have b0: "\<bar>pct\<bar> < 10 ^ 21"
    if "data (assetOf (category (news ! 0))) = Some info" "usd_24h_change info = Some pct"
    for info pct using that by (auto simp: c a d)
  have b1: "\<bar>pct\<bar> < 10 ^ 21"
    if "data (assetOf (category (news ! 1))) = Some info" "usd_24h_change info = Some pct"
    for info pct using that by (auto simp: c a d)
  have b2: "\<bar>pct\<bar> < 10 ^ 21"
    if "data (assetOf (category (news ! 2))) = Some info" "usd_24h_change info = Some pct"
    for info pct using that by (auto simp: c a d)
  have b3: "\<bar>pct\<bar> < 10 ^ 21"
    if "data (assetOf (category (news ! 3))) = Some info" "usd_24h_change info = Some pct"
    for info pct using that by (auto simp: c a d)
  have p0: "priceMove (?out ! 0) = ''+2.50%''"
    using price_move_format [of 0 news data ts, OF _ b0]
    by (simp add: n c a d Let_def showNat_small showNat_big digitChar_def)
  have p1: "priceMove (?out ! 1) = ''-0.44%''"
    using price_move_format [of 1 news data ts, OF _ b1]
    by (simp add: n c a d Let_def showNat_small showNat_big digitChar_def)
  have p2: "priceMove (?out ! 2) = ''N/A''"
    using price_move_format [of 2 news data ts, OF _ b2]
    by (simp add: n c a d)
  have p3: "priceMove (?out ! 3) = ''N/A''"
    using price_move_format [of 3 news data ts, OF _ b3]
    by (simp add: n c a d)
  have "map priceMove ?out = [''+2.50%'', ''-0.44%'', ''N/A'', ''N/A'']"
    using len p0 p1 p2 p3
    by (simp add: list_eq_iff_nth_eq nth_Cons' less_Suc_eq numeral_eq_Suc)
  then show "map priceMove
       (loadCorrelatedMoves ts
          (Some (prices [(''render-token'', Some 2.5), (''bitcoin'', Some (- 0.4375)),
                         (''solana'', None)]))
          [story ''Binance'' ''AI'' ''High'' ''Bullish'',
           story ''Coindesk'' ''General'' ''Low'' ''Neutral'',
           story ''OKX'' ''Solana'' ''Low'' ''Neutral'',
           story ''Bybit'' ''DeFi'' ''Low'' ''Neutral''])
     = [''+2.50%'', ''-0.44%'', ''N/A'', ''N/A'']"
    unfolding data_def news_def .
qed

text \<open>Claim C8 as the specification words it fails: a change of exactly 0 is printed
  without a sign.\<close>

theorem price_move_sign_counterexample:
  "\<forall>ts.
     map priceMove
       (loadCorrelatedMoves ts (Some (prices [(''bitcoin'', Some 0)]))
          [story ''Coindesk'' ''General'' ''Low'' ''Neutral''])
     = [''0.00%'']"
  by (simp add: loadCorrelatedMoves_map priceMove_enrich story_def prices_def assetOf_eval
      toFixed_def Let_def showNat_small digitChar_def)

text \<open>The frame theorem at one item and a price answer for its asset.\<close>

theorem enrichment_frame_witness:
  "\<forall>ts.
     map title (loadCorrelatedMoves ts (Some (prices [(''bitcoin'', Some 0)]))
       [story ''Coindesk'' ''General'' ''Low'' ''Neutral'']) = [''Headline''] \<and>
     map tags (loadCorrelatedMoves ts (Some (prices [(''bitcoin'', Some 0)]))
       [story ''Coindesk'' ''General'' ''Low'' ''Neutral'']) = [[''Coindesk'', ''General'']] \<and>
     map priceMove (loadCorrelatedMoves ts (Some (prices [(''bitcoin'', Some 0)]))
       [story ''Coindesk'' ''General'' ''Low'' ''Neutral'']) = [''0.00%'']"
proof
  fix ts
  from enrichment_frame [of ts "Some (prices [(''bitcoin'', Some 0)])"
      "[story ''Coindesk'' ''General'' ''Low'' ''Neutral'']"]
  show "map title (loadCorrelatedMoves ts (Some (prices [(''bitcoin'', Some 0)]))
       [story ''Coindesk'' ''General'' ''Low'' ''Neutral'']) = [''Headline''] \<and>
     map tags (loadCorrelatedMoves ts (Some (prices [(''bitcoin'', Some 0)]))
       [story ''Coindesk'' ''General'' ''Low'' ''Neutral'']) = [[''Coindesk'', ''General'']] \<and>
     map priceMove (loadCorrelatedMoves ts (Some (prices [(''bitcoin'', Some 0)]))
       [story ''Coindesk'' ''General'' ''Low'' ''Neutral'']) = [''0.00%'']"
    by (simp add: loadCorrelatedMoves_map priceMove_enrich story_def prices_def assetOf_eval
      toFixed_def Let_def showNat_small digitChar_def)
qed

subsection \<open>Trade idea engine\<close>

lemma length_forEachFrom: "length (forEachFrom ts rnd k ns) = length ns"
  by (induction ns arbitrary: k) simp_all

lemma forEachFrom_kind:
  "x \<in> set (forEachFrom ts rnd k ns) \<Longrightarrow>
   idea_category x = ''Narrative'' \<and> idea_id x \<noteq> ''no-edge''"
  by (induction ns arbitrary: k) (auto simp: newsIdea_def)

lemma length_narrative: "length (narrative ts rnd liveNews) \<le> 5"
  by (simp add: narrative_def length_forEachFrom)

lemma narrative_kind:
  "x \<in> set (narrative ts rnd liveNews) \<Longrightarrow>
   idea_category x = ''Narrative'' \<and> idea_id x \<noteq> ''no-edge''"
  unfolding narrative_def by (rule forEachFrom_kind)

lemma length_directional: "length (directional m liveNews) \<le> 1"
  by (simp add: directional_def)

lemma directional_kind:
  "x \<in> set (directional m liveNews) \<Longrightarrow>
   idea_category x = ''Directional'' \<and> idea_id x \<noteq> ''no-edge''"
  by (auto simp: directional_def longBtc_def shortBtc_def split: if_splits)

lemma length_relativeValue: "length (relativeValue liveNews) \<le> 1"
  by (simp add: relativeValue_def)

lemma relativeValue_kind:
  "x \<in> set (relativeValue liveNews) \<Longrightarrow>
   idea_category x = ''Relative Value'' \<and> idea_id x \<noteq> ''no-edge''"
  by (auto simp: relativeValue_def ethAlt_def split: if_splits)

lemma length_riskRegime: "length (riskRegime m) \<le> 1"
  by (simp add: riskRegime_def)

lemma riskRegime_kind:
  "x \<in> set (riskRegime m) \<Longrightarrow>
   idea_category x = ''Risk Management'' \<and> idea_id x \<noteq> ''no-edge''"
  by (auto simp: riskRegime_def riskWarning_def split: if_splits)

lemma ruleIdeas_no_fallback:
  "x \<in> set (ruleIdeas ts rnd m liveNews) \<Longrightarrow> idea_id x \<noteq> ''no-edge''"
  using directional_kind relativeValue_kind riskRegime_kind narrative_kind
  by (fastforce simp: ruleIdeas_def)

lemma filter_all: "(\<And>x. x \<in> set xs \<Longrightarrow> P x) \<Longrightarrow> filter P xs = xs"
  by (induction xs) simp_all

lemma filter_none: "(\<And>x. x \<in> set xs \<Longrightarrow> \<not> P x) \<Longrightarrow> filter P xs = []"
  by (induction xs) simp_all

lemma ruleIdeas_Nil:
  "ruleIdeas ts rnd m liveNews = [] \<longleftrightarrow>
   directional m liveNews = [] \<and> relativeValue liveNews = [] \<and> riskRegime m = [] \<and>
   narrative ts rnd liveNews = []"
  by (simp add: ruleIdeas_def)

lemma buildIdeas_cases:
  "buildIdeas ts rnd m liveNews =
     (if ruleIdeas ts rnd m liveNews = [] then [noEdge] else ruleIdeas ts rnd m liveNews)"
  by (simp add: buildIdeas_def Let_def)

text \<open>
  Claim C5. For every macro snapshot and every non-empty list of NewsItems, a run of the
  trade idea effect sets an idea list, and that list is not empty. The fallback idea (id
  \<^verbatim>\<open>no-edge\<close>, tag NO STRONG EDGE) is in it exactly when the directional, the
  relative-value, the risk-warning and the narrative rule all pushed nothing, and then it is
  there once.
\<close>

theorem ideas_nonempty_fallback:
  assumes "liveNews \<noteq> []"
  shows "\<exists>ideas. tradeIdeaEngine ts rnd m liveNews = Some ideas \<and> ideas \<noteq> [] \<and>
     ((\<exists>x \<in> set ideas. idea_id x = ''no-edge'') \<longleftrightarrow>
        directional m liveNews = [] \<and> relativeValue liveNews = [] \<and> riskRegime m = [] \<and>
        narrative ts rnd liveNews = []) \<and>
     length (filter (\<lambda>x. idea_id x = ''no-edge'') ideas) =
       (if directional m liveNews = [] \<and> relativeValue liveNews = [] \<and> riskRegime m = [] \<and>
           narrative ts rnd liveNews = [] then 1 else 0)"
proof (cases "ruleIdeas ts rnd m liveNews = []")
  case True
  then have "buildIdeas ts rnd m liveNews = [noEdge]"
    by (simp add: buildIdeas_cases)
  with assms True show ?thesis
    by (simp add: tradeIdeaEngine_def ruleIdeas_Nil noEdge_def)
next
  case False
  then have b: "buildIdeas ts rnd m liveNews = ruleIdeas ts rnd m liveNews"
    by (simp add: buildIdeas_cases)
  have none: "filter (\<lambda>x. idea_id x = ''no-edge'') (ruleIdeas ts rnd m liveNews) = []"
    by (rule filter_none) (rule ruleIdeas_no_fallback)
  have "\<not> (\<exists>x \<in> set (ruleIdeas ts rnd m liveNews). idea_id x = ''no-edge'')"
    using ruleIdeas_no_fallback by blast
  with assms False b none show ?thesis
    unfolding ruleIdeas_Nil [symmetric]
    by (simp add: tradeIdeaEngine_def)
qed

text \<open>
  Claim C10. Whenever the trade idea effect sets an idea list, the list has at most 8 ideas:
  at most one of category Directional, at most one of category Relative Value, at most one
  of category Risk Management, at most five of category Narrative, and at most one
  fallback idea, which is in the list only when it is the whole list.
\<close>

theorem ideas_bounded:
  assumes "tradeIdeaEngine ts rnd m liveNews = Some ideas"
  shows "length ideas \<le> 8 \<and>
     length (filter (\<lambda>x. idea_category x = ''Directional'') ideas) \<le> 1 \<and>
     length (filter (\<lambda>x. idea_category x = ''Relative Value'') ideas) \<le> 1 \<and>
     length (filter (\<lambda>x. idea_category x = ''Risk Management'') ideas) \<le> 1 \<and>
     length (filter (\<lambda>x. idea_category x = ''Narrative'') ideas) \<le> 5 \<and>
     length (filter (\<lambda>x. idea_id x = ''no-edge'') ideas) \<le> 1 \<and>
     ((\<exists>x \<in> set ideas. idea_id x = ''no-edge'') \<longrightarrow> ideas = [noEdge])"
proof -
  from assms have ideas: "ideas = buildIdeas ts rnd m liveNews"
    by (simp add: tradeIdeaEngine_def split: if_splits)
  let ?D = "directional m liveNews" and ?V = "relativeValue liveNews"
  let ?R = "riskRegime m" and ?N = "narrative ts rnd liveNews"
  have rule: "ruleIdeas ts rnd m liveNews = ?D @ ?V @ ?R @ ?N"
    by (simp add: ruleIdeas_def)
  show ?thesis
  proof (cases "ruleIdeas ts rnd m liveNews = []")
    case True
    then have "ideas = [noEdge]" by (simp add: ideas buildIdeas_cases)
    then show ?thesis by (simp add: noEdge_def)
  next
    case False
    then have "ideas = ruleIdeas ts rnd m liveNews"
      by (simp add: ideas buildIdeas_cases)
    then have eq: "ideas = ?D @ ?V @ ?R @ ?N"
      by (simp only: rule)
    have len: "length ideas \<le> 8"
      using length_directional [of m liveNews] length_relativeValue [of liveNews]
        length_riskRegime [of m] length_narrative [of ts rnd liveNews]
      by (simp add: eq)
    have d: "filter (\<lambda>x. idea_category x = ''Directional'') ideas = ?D"
      unfolding eq filter_append
      using directional_kind [of _ m liveNews] relativeValue_kind [of _ liveNews]
        riskRegime_kind [of _ m] narrative_kind [of _ ts rnd liveNews]
      by (simp add: filter_all filter_none)
    have v: "filter (\<lambda>x. idea_category x = ''Relative Value'') ideas = ?V"
      unfolding eq filter_append
      using directional_kind [of _ m liveNews] relativeValue_kind [of _ liveNews]
        riskRegime_kind [of _ m] narrative_kind [of _ ts rnd liveNews]
      by (simp add: filter_all filter_none)
    have r: "filter (\<lambda>x. idea_category x = ''Risk Management'') ideas = ?R"
      unfolding eq filter_append
      using directional_kind [of _ m liveNews] relativeValue_kind [of _ liveNews]
        riskRegime_kind [of _ m] narrative_kind [of _ ts rnd liveNews]
      by (simp add: filter_all filter_none)
    have n: "filter (\<lambda>x. idea_category x = ''Narrative'') ideas = ?N"
      unfolding eq filter_append
      using directional_kind [of _ m liveNews] relativeValue_kind [of _ liveNews]
        riskRegime_kind [of _ m] narrative_kind [of _ ts rnd liveNews]
      by (simp add: filter_all filter_none)
    have f: "filter (\<lambda>x. idea_id x = ''no-edge'') ideas = []"
      unfolding eq rule [symmetric]
      by (rule filter_none) (rule ruleIdeas_no_fallback)
    have nf: "\<not> (\<exists>x \<in> set ideas. idea_id x = ''no-edge'')"
      unfolding eq rule [symmetric] using ruleIdeas_no_fallback by blast
    from len nf show ?thesis
      unfolding d v r n f
      using length_directional [of m liveNews] length_relativeValue [of liveNews]
        length_riskRegime [of m] length_narrative [of ts rnd liveNews]
      by simp
  qed
qed


lemmas macro_eval = loadMacro_def macroOf_def avgChgOf_def totalVolOf_def entryOr_def
  numberOr0_def quotes_def trendOf_def volaOf_def liqOf_def exactOps_def Let_def

lemmas ideas_eval = tradeIdeaEngine_def buildIdeas_def ruleIdeas_def directional_def
  relativeValue_def altFlow_def riskRegime_def narrative_def highImpact_def topNews_def
  bullish_def bearish_def story_def Let_def

text \<open>The theorem at two inputs: one low-impact item under the initial snapshot, where no
  rule fires, and one high-impact media item under a Strong Bull, High Stress, Thinner
  snapshot, where every rule fires.\<close>

theorem ideas_nonempty_fallback_witness:
  "\<forall>ts rnd.
     tradeIdeaEngine ts rnd initialMacro [story ''Binance'' ''General'' ''Low'' ''Neutral'']
       = Some [noEdge] \<and>
     map_option (map idea_id)
       (tradeIdeaEngine ts rnd
          (loadMacro exactOps (Some (quotes (Some 5) (Some (10 * 10 ^ 9)) (Some 4) (Some (5 * 10 ^ 9))))
             initialMacro)
          [story ''Coindesk'' ''AI'' ''High'' ''Bullish''])
       = Some [''long-btc'', ''eth-alt'', ''risk-warning'', ''news-idea-0'']"
proof (intro allI conjI)
  fix ts rnd
  show "tradeIdeaEngine ts rnd initialMacro [story ''Binance'' ''General'' ''Low'' ''Neutral'']
       = Some [noEdge]"
    using ideas_nonempty_fallback
      [of "[story ''Binance'' ''General'' ''Low'' ''Neutral'']" ts rnd initialMacro]
    by (simp add: ideas_eval initialMacro_def)
  show "map_option (map idea_id)
       (tradeIdeaEngine ts rnd
          (loadMacro exactOps (Some (quotes (Some 5) (Some (10 * 10 ^ 9)) (Some 4) (Some (5 * 10 ^ 9))))
             initialMacro)
          [story ''Coindesk'' ''AI'' ''High'' ''Bullish''])
       = Some [''long-btc'', ''eth-alt'', ''risk-warning'', ''news-idea-0'']"
    using ideas_nonempty_fallback
      [of "[story ''Coindesk'' ''AI'' ''High'' ''Bullish'']" ts rnd
        "loadMacro exactOps (Some (quotes (Some 5) (Some (10 * 10 ^ 9)) (Some 4) (Some (5 * 10 ^ 9))))
             initialMacro"]
    by (simp add: ideas_eval macro_eval longBtc_def ethAlt_def riskWarning_def newsIdea_def
        showNat.simps [of 0] digitChar_def)
qed

text \<open>The theorem at seven items, six of them of high impact, under a Strong Bear, High
  Stress, Thinner snapshot: every rule fires and the list has exactly 8 ideas.\<close>

theorem ideas_bounded_witness:
  "\<forall>ts rnd.
     map_option (map idea_category)
       (tradeIdeaEngine ts rnd
          (loadMacro exactOps (Some (quotes (Some (- 5)) (Some (10 * 10 ^ 9)) (Some (- 4)) (Some (5 * 10 ^ 9))))
             initialMacro)
          [story ''Coindesk'' ''AI'' ''High'' ''Bullish'',
           story ''Binance'' ''General'' ''High'' ''Bearish'',
           story ''Bybit'' ''General'' ''High'' ''Neutral'',
           story ''OKX'' ''DeFi'' ''High'' ''Cautious'',
           story ''Coindesk'' ''Solana'' ''High'' ''Bearish'',
           story ''Binance'' ''AI'' ''High'' ''Bullish'',
           story ''Binance'' ''AI'' ''Low'' ''Bullish''])
       = Some [''Directional'', ''Relative Value'', ''Risk Management'', ''Narrative'',
               ''Narrative'', ''Narrative'', ''Narrative'', ''Narrative'']"
proof (intro allI)
  fix ts rnd
  define m where "m = loadMacro exactOps
      (Some (quotes (Some (- 5)) (Some (10 * 10 ^ 9)) (Some (- 4)) (Some (5 * 10 ^ 9)))) initialMacro"
  define news where "news =
          [story ''Coindesk'' ''AI'' ''High'' ''Bullish'',
           story ''Binance'' ''General'' ''High'' ''Bearish'',
           story ''Bybit'' ''General'' ''High'' ''Neutral'',
           story ''OKX'' ''DeFi'' ''High'' ''Cautious'',
           story ''Coindesk'' ''Solana'' ''High'' ''Bearish'',
           story ''Binance'' ''AI'' ''High'' ''Bullish'',
           story ''Binance'' ''AI'' ''Low'' ''Bullish'']"
  have e: "tradeIdeaEngine ts rnd m news = Some (buildIdeas ts rnd m news)"
    by (simp add: tradeIdeaEngine_def news_def)
  have c: "map idea_category (buildIdeas ts rnd m news) =
      [''Directional'', ''Relative Value'', ''Risk Management'', ''Narrative'',
               ''Narrative'', ''Narrative'', ''Narrative'', ''Narrative'']"
    by (simp add: m_def news_def ideas_eval macro_eval shortBtc_def ethAlt_def riskWarning_def
        newsIdea_def)
  from ideas_bounded [OF e] c e
  have "map_option (map idea_category) (tradeIdeaEngine ts rnd m news) =
      Some [''Directional'', ''Relative Value'', ''Risk Management'', ''Narrative'',
               ''Narrative'', ''Narrative'', ''Narrative'', ''Narrative'']"
    by simp
  then show "map_option (map idea_category)
       (tradeIdeaEngine ts rnd
          (loadMacro exactOps (Some (quotes (Some (- 5)) (Some (10 * 10 ^ 9)) (Some (- 4)) (Some (5 * 10 ^ 9))))
             initialMacro)
          [story ''Coindesk'' ''AI'' ''High'' ''Bullish'',
           story ''Binance'' ''General'' ''High'' ''Bearish'',
           story ''Bybit'' ''General'' ''High'' ''Neutral'',
           story ''OKX'' ''DeFi'' ''High'' ''Cautious'',
           story ''Coindesk'' ''Solana'' ''High'' ''Bearish'',
           story ''Binance'' ''AI'' ''High'' ''Bullish'',
           story ''Binance'' ''AI'' ''Low'' ''Bullish''])
       = Some [''Directional'', ''Relative Value'', ''Risk Management'', ''Narrative'',
               ''Narrative'', ''Narrative'', ''Narrative'', ''Narrative'']"
    unfolding m_def news_def .
qed

subsection \<open>News normalizer\<close>

lemmas tidy_eval = tidy_def stripTags_def tagLen_def stripUrls_def urlLen_def nonSpaceRun_def
  collapseWs_def wsLen_def trim_def isSpace_def noSummary_def

lemma clean_noSummary:
  "cleanSummary None (Some ''No summary available.'') = ''No summary available.''"
  "cleanSummary plainDom (Some ''No summary available.'') = ''No summary available.''"
  by (simp_all add: cleanSummary_def domText_def plainDom_def tidy_eval)

lemma classify1: "classifyCategory ''Binance Lists New AI Token No summary available.'' = ''AI''"
  by (simp add: classifyCategory_def toLowerCase_def toLowerChar_def)

lemma classify2: "classifyCategory ''Bitcoin breaks key level No summary available.'' = ''AI''"
  by (simp add: classifyCategory_def toLowerCase_def toLowerChar_def)

lemma classify3: "classifyCategory ''Bitcoin breaks key level'' = ''General''"
  by (simp add: classifyCategory_def toLowerCase_def toLowerChar_def)

lemma filterBoolean_simps [simp]:
  "filterBoolean [] = []"
  "filterBoolean (None # rs) = filterBoolean rs"
  "filterBoolean (Some p # rs) = p # filterBoolean rs"
  by (simp_all add: filterBoolean_def List.map_filter_simps)

text \<open>
  Claim C2, at its input. Binance answers with one item titled "Binance Lists New AI Token",
  Cointelegraph with one item titled "Bitcoin breaks key level", no other field set; the
  other three fetches fail. The merged list has two items, and both have the category AI:
  the text that is classified is title, space, summary, the summary of an item without a
  description is "No summary available.", and "available" holds the letters "ai". With or
  without a DOM the result is the same.
\<close>

theorem scenario_categories:
  "\<forall>rnd.
     map_sum id (map category)
       (merged None rnd
          [Some (feed [headline ''Binance Lists New AI Token'']), None, None,
           Some (feed [headline ''Bitcoin breaks key level'']), None])
       = Inr [''AI'', ''AI''] \<and>
     map_sum id (map category)
       (merged plainDom rnd
          [Some (feed [headline ''Binance Lists New AI Token'']), None, None,
           Some (feed [headline ''Bitcoin breaks key level'']), None])
       = Inr [''AI'', ''AI'']"
  by (simp add: merged_def itemsOf_def feed_def headline_def EXCHANGE_NEWS_ENDPOINTS_def
      mkItem_def orElse_def Let_def clean_noSummary classify1 classify2)

text \<open>
  Claim C1, at an input where it fails. The fetch for Binance (index 0) fails and the one for
  Bybit (index 1) answers with one item. \<^verbatim>\<open>filter(Boolean)\<close> drops the \<^verbatim>\<open>null\<close> before
  \<^verbatim>\<open>flatMap\<close> counts the payloads, so Bybit's payload has index 0 there and its item gets
  the source Binance.
\<close>

theorem failed_feed_source:
  "\<forall>d rnd.
     map_sum id (map source)
       (merged d rnd [None, Some (feed [headline ''Bybit Lists XYZ'']), None, None, None])
       = Inr [''Binance''] \<and>
     name (EXCHANGE_NEWS_ENDPOINTS ! 1) = ''Bybit''"
  by (simp add: merged_def itemsOf_def feed_def headline_def EXCHANGE_NEWS_ENDPOINTS_def
      mkItem_def Let_def)

lemma mkItem_id: "item_id (mkItem d r1 r2 nm item) = derivedId nm item"
  by (auto simp: mkItem_def derivedId_def orElse_def Let_def split: option.splits)

lemma mapItems_ids: "map item_id (mapItems d rnd k nm items) = map (derivedId nm) items"
  by (induction items arbitrary: k) (simp_all add: mkItem_id)

lemma length_mapItems: "length (mapItems d rnd k nm items) = length items"
  by (induction items arbitrary: k) simp_all

lemma flatMapFrom_ids:
  "flatMapFrom d rnd k i ps = Inr out \<Longrightarrow> map item_id out = derivedIds i ps"
proof (induction ps arbitrary: k i out)
  case Nil
  then show ?case by simp
next
  case (Cons res rest)
  then show ?case
    by (auto simp: Let_def mapItems_ids split: if_splits sum.splits)
qed

lemma length_derivedIds: "length (derivedIds i ps) = length (concat (map itemsOf ps))"
  by (induction ps arbitrary: i) simp_all

lemma flatMapFrom_total:
  "i + length ps \<le> length EXCHANGE_NEWS_ENDPOINTS \<Longrightarrow> \<exists>out. flatMapFrom d rnd k i ps = Inr out"
proof (induction ps arbitrary: k i)
  case Nil
  then show ?case by simp
next
  case (Cons res rest)
  from Cons.prems have "Suc i + length rest \<le> length EXCHANGE_NEWS_ENDPOINTS" by simp
  from Cons.IH [OF this] obtain later
    where "flatMapFrom d rnd (k + 2 * length (itemsOf res)) (Suc i) rest = Inr later"
    by blast
  with Cons.prems show ?case by (simp add: Let_def)
qed

lemma length_filterBoolean: "length (filterBoolean rs) \<le> length rs"
proof (induction rs)
  case Nil
  then show ?case by simp
next
  case (Cons r rs)
  then show ?case by (cases r) simp_all
qed

text \<open>
  Claim C3, as the code has it. For the five results of one cycle the merge succeeds; the
  ids of its items are, in order and up to the cap of 60, the ids the rule of the data
  model gives to the raw items of the payloads that arrived (guid, else link, else name,
  hyphen, title, with the name the merge attaches to the payload). Every raw item up to the
  cap has its own item in the output: nothing is removed or overwritten because of its id.
  So the ids of the output are unique exactly when these derived ids are.
\<close>

theorem ids_not_deduplicated:
  assumes "length results = length EXCHANGE_NEWS_ENDPOINTS"
  shows "\<exists>out. merged d rnd results = Inr out \<and>
     map item_id out = take 60 (derivedIds 0 (filterBoolean results)) \<and>
     length out = min 60 (length (concat (map itemsOf (filterBoolean results)))) \<and>
     (distinct (map item_id out) \<longleftrightarrow> distinct (take 60 (derivedIds 0 (filterBoolean results))))"
proof -
  from assms length_filterBoolean [of results]
  have "0 + length (filterBoolean results) \<le> length EXCHANGE_NEWS_ENDPOINTS" by simp
  from flatMapFrom_total [OF this] obtain items
    where items: "flatMapFrom d rnd 0 0 (filterBoolean results) = Inr items" by blast
  then have m: "merged d rnd results = Inr (take 60 items)" by (simp add: merged_def)
  have "map item_id (take 60 items) = take 60 (map item_id items)"
    by (rule take_map [symmetric])
  with flatMapFrom_ids [OF items]
  have ids: "map item_id (take 60 items) = take 60 (derivedIds 0 (filterBoolean results))"
    by simp
  from arg_cong [OF ids, of length]
  have "length (take 60 items) = min 60 (length (concat (map itemsOf (filterBoolean results))))"
    by (simp add: length_derivedIds min.commute)
  with m ids show ?thesis by simp
qed


text \<open>The theorem at a cycle in which Binance answers with two items and Bybit with
  one.\<close>

theorem ids_not_deduplicated_witness:
  "\<forall>d rnd.
     length [Some (feed [entry ''g1'' ''A'', headline ''B'']), Some (feed [headline ''C'']),
             None, None, None] = length EXCHANGE_NEWS_ENDPOINTS \<and>
     map_sum id (map item_id)
       (merged d rnd
          [Some (feed [entry ''g1'' ''A'', headline ''B'']), Some (feed [headline ''C'']),
           None, None, None])
       = Inr [''g1'', ''Binance-B'', ''Bybit-C'']"
proof (intro allI)
  fix d rnd
  define results where "results =
    [Some (feed [entry ''g1'' ''A'', headline ''B'']), Some (feed [headline ''C'']),
     None, None, None]"
  have len: "length results = length EXCHANGE_NEWS_ENDPOINTS"
    by (simp add: results_def EXCHANGE_NEWS_ENDPOINTS_def)
  have ids: "take 60 (derivedIds 0 (filterBoolean results)) = [''g1'', ''Binance-B'', ''Bybit-C'']"
    by (simp add: results_def feed_def entry_def headline_def itemsOf_def derivedId_def
        EXCHANGE_NEWS_ENDPOINTS_def Let_def)
  from ids_not_deduplicated [OF len, of d rnd] obtain out
    where "merged d rnd results = Inr out"
      and "map item_id out = take 60 (derivedIds 0 (filterBoolean results))"
    by blast
  with ids len have "length results = length EXCHANGE_NEWS_ENDPOINTS \<and>
      map_sum id (map item_id) (merged d rnd results) = Inr [''g1'', ''Binance-B'', ''Bybit-C'']"
    by simp
  then show "length [Some (feed [entry ''g1'' ''A'', headline ''B'']), Some (feed [headline ''C'']),
             None, None, None] = length EXCHANGE_NEWS_ENDPOINTS \<and>
     map_sum id (map item_id)
       (merged d rnd
          [Some (feed [entry ''g1'' ''A'', headline ''B'']), Some (feed [headline ''C'']),
           None, None, None])
       = Inr [''g1'', ''Binance-B'', ''Bybit-C'']"
    unfolding results_def .
qed

text \<open>Claim C3 as the specification words it fails: two raw items with the same guid both
  stay in the output, with the same id.\<close>

theorem duplicate_ids_counterexample:
  "\<forall>d rnd.
     map_sum id (map (\<lambda>n. (item_id n, title n)))
       (merged d rnd
          [Some (feed [entry ''dup'' ''First'', entry ''dup'' ''Second'']), None, None, None, None])
       = Inr [(''dup'', ''First''), (''dup'', ''Second'')]"
  by (simp add: merged_def itemsOf_def feed_def entry_def EXCHANGE_NEWS_ENDPOINTS_def
      mkItem_def orElse_def Let_def)

text \<open>A random index is inside the array, so \<open>pick\<close> never reads out of range.\<close>

lemma randomIndex_less: "0 < n \<Longrightarrow> randomIndex r n < n"
proof -
  assume n: "0 < n"
  from drawValue [of r] have r: "0 \<le> drawValue r" "drawValue r < 1" by simp_all
  from r n have "drawValue r * real n < real n" by simp
  moreover from r have "0 \<le> drawValue r * real n" by simp
  ultimately have "\<lfloor>drawValue r * real n\<rfloor> < int n" and "0 \<le> \<lfloor>drawValue r * real n\<rfloor>"
    by (simp_all add: floor_less_iff)
  then have "nat \<lfloor>drawValue r * real n\<rfloor> < n" by linarith
  then show ?thesis by (simp only: randomIndex_def)
qed

lemma pick_in_set: "xs \<noteq> [] \<Longrightarrow> pick xs r \<in> set xs"
  by (simp add: pick_def randomIndex_less)

text \<open>The items of the payloads that arrived all appear, in order, up to the cap of 60,
  whatever fetches failed.\<close>

lemma mkItem_title: "title (mkItem d r1 r2 nm item) = orElse (raw_title item) ''Untitled''"
  by (simp add: mkItem_def Let_def)

lemma mapItems_titles:
  "map title (mapItems d rnd k nm items) = map (\<lambda>it. orElse (raw_title it) ''Untitled'') items"
  by (induction items arbitrary: k) (simp_all add: mkItem_title)

lemma flatMapFrom_titles:
  "flatMapFrom d rnd k i ps = Inr out \<Longrightarrow>
   map title out = map (\<lambda>it. orElse (raw_title it) ''Untitled'') (concat (map itemsOf ps))"
proof (induction ps arbitrary: k i out)
  case Nil
  then show ?case by simp
next
  case (Cons res rest)
  then show ?case
    by (auto simp: Let_def mapItems_titles split: if_splits sum.splits)
qed

lemma merged_titles:
  assumes "merged d rnd results = Inr out"
  shows "map title out =
     take 60 (map (\<lambda>it. orElse (raw_title it) ''Untitled'')
        (concat (map itemsOf (filterBoolean results))))"
proof -
  from assms obtain items where items: "flatMapFrom d rnd 0 0 (filterBoolean results) = Inr items"
    and out: "out = take 60 items"
    by (auto simp: merged_def split: sum.splits)
  have "map title (take 60 items) = take 60 (map title items)"
    by (rule take_map [symmetric])
  with flatMapFrom_titles [OF items] out show ?thesis by simp
qed

text \<open>The source is the name of the endpoint at the payload's position among the payloads
  that arrived.\<close>

lemma mapItems_sources: "map source (mapItems d rnd k nm items) = replicate (length items) nm"
  by (induction items arbitrary: k) (simp_all add: mkItem_def Let_def)

lemma flatMapFrom_sources:
  "flatMapFrom d rnd k i ps = Inr out \<Longrightarrow> map source out = sourcesFrom i ps"
proof (induction ps arbitrary: k i out)
  case Nil
  then show ?case by simp
next
  case (Cons res rest)
  then show ?case
    by (auto simp: Let_def mapItems_sources split: if_splits sum.splits)
qed

subsection \<open>Text normalizer\<close>

lemma replaceAll_induct [case_names Nil match keep]:
  assumes "P []"
    and "\<And>c cs n. m (c # cs) = Some (Suc n) \<Longrightarrow> P (drop n cs) \<Longrightarrow> P (c # cs)"
    and "\<And>c cs. m (c # cs) = None \<or> m (c # cs) = Some 0 \<Longrightarrow> P cs \<Longrightarrow> P (c # cs)"
  shows "P s"
proof (induction s rule: length_induct)
  case (1 s)
  show ?case
  proof (cases s)
    case Nil
    with assms(1) show ?thesis by simp
  next
    case (Cons c cs)
    show ?thesis
    proof (cases "m (c # cs)")
      case None
      with assms(3) [of c cs] 1 Cons show ?thesis by simp
    next
      case (Some k)
      show ?thesis
      proof (cases k)
        case 0
        with Some assms(3) [of c cs] 1 Cons show ?thesis by simp
      next
        case (Suc n)
        have "length (drop n cs) < length s" using Cons by simp
        with 1 have "P (drop n cs)" by blast
        with assms(2) [of c cs n] Some Suc Cons show ?thesis by simp
      qed
    qed
  qed
qed

lemma replaceAll_match:
  "m (c # cs) = Some (Suc n) \<Longrightarrow> replaceAll m rep (c # cs) = rep @ replaceAll m rep (drop n cs)"
  by simp

lemma replaceAll_keep:
  "m (c # cs) = None \<or> m (c # cs) = Some 0 \<Longrightarrow>
   replaceAll m rep (c # cs) = c # replaceAll m rep cs"
  by auto

lemma containsMatch_drop: "containsMatch m (drop k s) \<Longrightarrow> containsMatch m s"
proof (induction s arbitrary: k)
  case Nil
  then show ?case by simp
next
  case (Cons c cs)
  show ?case
  proof (cases k)
    case 0
    with Cons.prems show ?thesis by simp
  next
    case (Suc j)
    with Cons show ?thesis by auto
  qed
qed

lemma containsMatch_dropWhile: "containsMatch m (dropWhile P s) \<Longrightarrow> containsMatch m s"
  using containsMatch_drop [of m "length (takeWhile P s)" s]
  by (simp add: dropWhile_eq_drop)

lemma set_replaceAll: "set (replaceAll m rep s) \<subseteq> set s \<union> set rep"
proof (induction s rule: replaceAll_induct [where m = m])
  case Nil
  then show ?case by simp
next
  case (match c cs n)
  have "set (drop n cs) \<subseteq> set cs" by (rule set_drop_subset)
  with match show ?case by (auto simp del: replaceAll.simps simp add: replaceAll_match)
next
  case (keep c cs)
  then show ?case by (auto simp del: replaceAll.simps simp add: replaceAll_keep)
qed


declare replaceAll.simps(2) [simp del]

text \<open>Removing the URLs leaves none behind.\<close>

lemma tok_prefix_split:
  assumes "prefix p s" and "\<And>c. c \<in> set p \<Longrightarrow> \<not> isSpace c" and "length p = n"
  shows "tok s = p @ tok (drop n s)"
proof -
  from assms(1) obtain r where s: "s = p @ r" by (auto simp: prefix_def)
  from assms(2) have "takeWhile (\<lambda>c. \<not> isSpace c) (p @ r) = p @ takeWhile (\<lambda>c. \<not> isSpace c) r"
    by (simp add: takeWhile_append2)
  with s assms(3) show ?thesis by simp
qed

lemma prefix_tok: "prefix p (tok s) \<Longrightarrow> prefix p s"
  using takeWhile_is_prefix [of "\<lambda>c. \<not> isSpace c" s] prefix_order.trans by blast

lemma https_nospace: "c \<in> set ''https://'' \<Longrightarrow> \<not> isSpace c"
  by (auto simp: isSpace_def)

lemma http_nospace: "c \<in> set ''http://'' \<Longrightarrow> \<not> isSpace c"
  by (auto simp: isSpace_def)

lemma length_schemes: "length ''https://'' = 8" "length ''http://'' = 7"
  by simp_all

lemma scheme_clash: "prefix ''https://'' s \<Longrightarrow> \<not> prefix ''http://'' s"
  by (auto simp: prefix_def)

lemma urlLen_https:
  "prefix ''https://'' s \<Longrightarrow>
   urlLen s = (if 0 < length (tok (drop 8 s)) then Some (8 + length (tok (drop 8 s))) else None)"
  by (simp add: urlLen_def nonSpaceRun_def scheme_clash)

lemma urlLen_http:
  "\<not> prefix ''https://'' s \<Longrightarrow> prefix ''http://'' s \<Longrightarrow>
   urlLen s = (if 0 < length (tok (drop 7 s)) then Some (7 + length (tok (drop 7 s))) else None)"
  by (simp add: urlLen_def nonSpaceRun_def)

lemma urlLen_none:
  "\<not> prefix ''https://'' s \<Longrightarrow> \<not> prefix ''http://'' s \<Longrightarrow> urlLen s = None"
  by (simp add: urlLen_def)

lemma urlTok_https: "urlTok (''https://'' @ t) \<longleftrightarrow> t \<noteq> []"
  by (auto simp: urlTok_def)

lemma urlTok_http: "urlTok (''http://'' @ t) \<longleftrightarrow> t \<noteq> []"
  by (auto simp: urlTok_def)

lemma matchesAt_urlLen: "matchesAt urlLen s \<longleftrightarrow> urlTok (tok s)"
proof (cases "prefix ''https://'' s")
  case True
  from tok_prefix_split [OF True https_nospace length_schemes(1)]
  have t: "tok s = ''https://'' @ tok (drop 8 s)" .
  show ?thesis
    unfolding t urlTok_https matchesAt_def urlLen_https [OF True] by simp
next
  case False
  then have nt: "\<not> prefix ''https://'' (tok s)" using prefix_tok by blast
  show ?thesis
  proof (cases "prefix ''http://'' s")
    case True
    from tok_prefix_split [OF True http_nospace length_schemes(2)]
    have t: "tok s = ''http://'' @ tok (drop 7 s)" .
    show ?thesis
      unfolding t urlTok_http matchesAt_def urlLen_http [OF False True] by simp
  next
    case nh: False
    then have "\<not> prefix ''http://'' (tok s)" using prefix_tok by blast
    with nt show ?thesis
      by (simp add: matchesAt_def urlLen_none [OF False nh] urlTok_def)
  qed
qed

lemma urlTok_mono:
  assumes "prefix t1 t2" and "urlTok t1"
  shows "urlTok t2"
proof -
  from assms(1) have len: "length t1 \<le> length t2" by (rule prefix_length_le)
  from assms(1) have pre: "\<And>p. prefix p t1 \<Longrightarrow> prefix p t2"
    using prefix_order.trans by blast
  from assms(2) consider (a) "prefix ''https://'' t1" "8 < length t1"
    | (b) "prefix ''http://'' t1" "7 < length t1"
    unfolding urlTok_def by blast
  then show ?thesis
  proof cases
    case a
    from pre [OF a(1)] a(2) len show ?thesis unfolding urlTok_def by simp
  next
    case b
    from pre [OF b(1)] b(2) len show ?thesis unfolding urlTok_def by simp
  qed
qed

lemma urlLen_head: "urlLen (c # cs) = Some k \<Longrightarrow> c = CHR ''h'' \<and> 0 < k"
  by (auto simp: urlLen_def split: if_splits)

lemma urlLen_rest:
  assumes "urlLen s = Some k"
  shows "drop k s = [] \<or> isSpace (hd (drop k s))"
proof -
  have dw: "\<And>xs. dropWhile (\<lambda>c. \<not> isSpace c) xs = [] \<or> isSpace (hd (dropWhile (\<lambda>c. \<not> isSpace c) xs))"
    using hd_dropWhile [of "\<lambda>c. \<not> isSpace c"] by blast
  from assms consider (a) "k = 8 + nonSpaceRun (drop 8 s)" | (b) "k = 7 + nonSpaceRun (drop 7 s)"
    by (auto simp: urlLen_def split: if_splits)
  then show ?thesis
  proof cases
    case a
    have "drop k s = dropWhile (\<lambda>c. \<not> isSpace c) (drop 8 s)"
      by (simp add: a nonSpaceRun_def dropWhile_eq_drop add.commute)
    with dw [of "drop 8 s"] show ?thesis by simp
  next
    case b
    have "drop k s = dropWhile (\<lambda>c. \<not> isSpace c) (drop 7 s)"
      by (simp add: b nonSpaceRun_def dropWhile_eq_drop add.commute)
    with dw [of "drop 7 s"] show ?thesis by simp
  qed
qed

lemma stripUrls_space: "isSpace c \<Longrightarrow> stripUrls (c # cs) = c # stripUrls cs"
proof -
  assume sp: "isSpace c"
  have "urlLen (c # cs) = None"
  proof (cases "urlLen (c # cs)")
    case None
    then show ?thesis .
  next
    case (Some k)
    from urlLen_head [OF Some] sp show ?thesis by (simp add: isSpace_def)
  qed
  then show ?thesis by (simp add: stripUrls_def replaceAll_keep)
qed

lemma tok_stripUrls: "prefix (tok (stripUrls s)) (tok s)"
proof (induction s rule: replaceAll_induct [where m = urlLen])
  case Nil
  then show ?case by (simp add: stripUrls_def)
next
  case (match c cs n)
  from urlLen_rest [OF match(1)]
  have r: "drop n cs = [] \<or> isSpace (hd (drop n cs))" by simp
  have "tok (stripUrls (drop n cs)) = []"
  proof (cases "drop n cs")
    case Nil
    then show ?thesis by (simp add: stripUrls_def)
  next
    case (Cons x xs)
    with r have "isSpace x" by simp
    with Cons show ?thesis by (simp add: stripUrls_space)
  qed
  moreover have "stripUrls (c # cs) = stripUrls (drop n cs)"
    using match(1) by (simp add: stripUrls_def replaceAll_match)
  ultimately show ?case by simp
next
  case (keep c cs)
  have "urlLen (c # cs) \<noteq> Some 0" using urlLen_head by blast
  with keep(1) have "stripUrls (c # cs) = c # stripUrls cs"
    by (simp add: stripUrls_def replaceAll_keep)
  with keep(2) show ?case by simp
qed

lemma noUrl_stripUrls: "\<not> hasUrl (stripUrls s)"
  unfolding hasUrl_def
proof (induction s rule: replaceAll_induct [where m = urlLen])
  case Nil
  then show ?case by (simp add: stripUrls_def)
next
  case (match c cs n)
  then show ?case by (simp add: stripUrls_def replaceAll_match)
next
  case (keep c cs)
  have "urlLen (c # cs) \<noteq> Some 0" using urlLen_head by blast
  with keep(1) have none: "urlLen (c # cs) = None" by simp
  then have eq: "stripUrls (c # cs) = c # stripUrls cs"
    by (simp add: stripUrls_def replaceAll_keep)
  have "\<not> matchesAt urlLen (c # stripUrls cs)"
  proof
    assume "matchesAt urlLen (c # stripUrls cs)"
    then have u: "urlTok (tok (c # stripUrls cs))" by (simp add: matchesAt_urlLen)
    have "prefix (tok (c # stripUrls cs)) (tok (c # cs))"
      using tok_stripUrls [of cs] by simp
    from urlTok_mono [OF this u] have "matchesAt urlLen (c # cs)"
      by (simp add: matchesAt_urlLen)
    with none show False by (simp add: matchesAt_def)
  qed
  with keep(2) eq show ?case by simp
qed

lemma wsLen_Some: "wsLen (c # cs) = Some k \<Longrightarrow> isSpace c \<and> 0 < k"
  by (auto simp: wsLen_def Let_def split: if_splits)

lemma wsLen_None: "wsLen (c # cs) = None \<Longrightarrow> \<not> isSpace c"
  by (auto simp: wsLen_def Let_def split: if_splits)

lemma collapseWs_match:
  "wsLen (c # cs) = Some (Suc n) \<Longrightarrow> collapseWs (c # cs) = CHR '' '' # collapseWs (drop n cs)"
  by (simp add: collapseWs_def replaceAll_match)

lemma collapseWs_keep:
  assumes "wsLen (c # cs) = None \<or> wsLen (c # cs) = Some 0"
  shows "collapseWs (c # cs) = c # collapseWs cs" and "\<not> isSpace c"
proof -
  from assms show "collapseWs (c # cs) = c # collapseWs cs"
    by (simp add: collapseWs_def replaceAll_keep)
  have "wsLen (c # cs) \<noteq> Some 0" using wsLen_Some by blast
  with assms show "\<not> isSpace c" using wsLen_None by blast
qed

lemma space_isSpace: "isSpace CHR '' ''"
  by (simp add: isSpace_def)

lemma tok_collapseWs: "tok (collapseWs s) = tok s"
proof (induction s rule: replaceAll_induct [where m = wsLen])
  case Nil
  then show ?case by (simp add: collapseWs_def)
next
  case (match c cs n)
  from wsLen_Some [OF match(1)] have "isSpace c" by simp
  then show ?case by (simp add: collapseWs_match [OF match(1)] space_isSpace)
next
  case (keep c cs)
  from collapseWs_keep [OF keep(1)] keep(2) show ?case by simp
qed

lemma hasUrl_Cons: "hasUrl (c # cs) \<longleftrightarrow> urlTok (tok (c # cs)) \<or> hasUrl cs"
  by (simp add: hasUrl_def matchesAt_urlLen)

lemma not_urlTok_Nil: "\<not> urlTok []"
  by (simp add: urlTok_def)

lemma hasUrl_drop: "hasUrl (drop k s) \<Longrightarrow> hasUrl s"
  unfolding hasUrl_def by (rule containsMatch_drop)

lemma noUrl_collapseWs: "\<not> hasUrl s \<Longrightarrow> \<not> hasUrl (collapseWs s)"
proof (induction s rule: replaceAll_induct [where m = wsLen])
  case Nil
  then show ?case by (simp add: collapseWs_def)
next
  case (match c cs n)
  from match(3) hasUrl_drop [of "Suc n" "c # cs"] have "\<not> hasUrl (drop n cs)" by auto
  with match(2) have "\<not> hasUrl (collapseWs (drop n cs))" by simp
  then show ?case
    by (simp add: collapseWs_match [OF match(1)] hasUrl_Cons space_isSpace not_urlTok_Nil)
next
  case (keep c cs)
  from keep(3) have a: "\<not> urlTok (tok (c # cs))" and b: "\<not> hasUrl cs"
    by (simp_all add: hasUrl_Cons)
  from collapseWs_keep [OF keep(1)]
  have eq: "collapseWs (c # cs) = c # collapseWs cs" and ns: "\<not> isSpace c" .
  from a ns have "\<not> urlTok (tok (c # collapseWs cs))" by (simp add: tok_collapseWs)
  with keep(2) b show ?case by (simp add: eq hasUrl_Cons)
qed

lemma tok_append_prefix: "prefix (tok x) (tok (x @ w))"
proof (induction x)
  case Nil
  then show ?case by simp
next
  case (Cons c x)
  then show ?case by simp
qed

lemma hasUrl_append: "hasUrl t \<Longrightarrow> hasUrl (t @ w)"
proof (induction t)
  case Nil
  then show ?case by (simp add: hasUrl_def)
next
  case (Cons c t)
  show ?case
  proof (cases "urlTok (tok (c # t))")
    case True
    from urlTok_mono [OF tok_append_prefix [of "c # t" w] True]
    show ?thesis by (simp add: hasUrl_Cons)
  next
    case False
    with Cons show ?thesis by (simp add: hasUrl_Cons)
  qed
qed

lemma trim_split: "\<exists>w. dropWhile isSpace s = trim s @ w"
proof -
  let ?d = "dropWhile isSpace s"
  have "rev (takeWhile isSpace (rev ?d) @ dropWhile isSpace (rev ?d)) = rev (rev ?d)"
    by (simp only: takeWhile_dropWhile_id)
  then have "rev (dropWhile isSpace (rev ?d)) @ rev (takeWhile isSpace (rev ?d)) = ?d"
    by (simp only: rev_append rev_rev_ident)
  then have "?d = trim s @ rev (takeWhile isSpace (rev ?d))"
    by (simp only: trim_def)
  then show ?thesis by blast
qed

lemma noUrl_trim: "\<not> hasUrl s \<Longrightarrow> \<not> hasUrl (trim s)"
proof -
  assume n: "\<not> hasUrl s"
  obtain w where w: "dropWhile isSpace s = trim s @ w" using trim_split by blast
  from n have "\<not> hasUrl (dropWhile isSpace s)"
    unfolding hasUrl_def using containsMatch_dropWhile by blast
  with w hasUrl_append [of "trim s" w] show ?thesis by auto
qed

lemma noUrl_noSummary: "\<not> hasUrl noSummary"
  by (simp add: noSummary_def hasUrl_def matchesAt_def urlLen_def)

lemma noUrl_tidy: "\<not> hasUrl (tidy t)"
  using noUrl_trim [OF noUrl_collapseWs [OF noUrl_stripUrls [of t]]] noUrl_noSummary
  by (simp add: tidy_def Let_def)

lemma noUrl_cleanSummary: "\<not> hasUrl (cleanSummary d html)"
  by (simp add: cleanSummary_def noUrl_tidy noUrl_noSummary split: option.splits)

text \<open>Cutting the tags leaves none behind, and the later steps make none.\<close>

lemma takeWhile_short: "length (takeWhile P xs) < length xs \<longleftrightarrow> (\<exists>x \<in> set xs. \<not> P x)"
proof -
  have "length (takeWhile P xs) \<le> length xs" by (rule length_takeWhile_le)
  moreover have "length (takeWhile P xs) = length xs \<longleftrightarrow> takeWhile P xs = xs"
    by (metis takeWhile_dropWhile_id append_self_conv length_append add_cancel_left_right length_0_conv)
  ultimately show ?thesis by (auto simp: takeWhile_eq_all_conv)
qed

lemma matchesAt_tagLen:
  "matchesAt tagLen (c # r) \<longleftrightarrow>
   c = CHR ''<'' \<and> r \<noteq> [] \<and> hd r \<noteq> CHR ''>'' \<and> CHR ''>'' \<in> set r"
proof -
  have a: "takeWhile (\<lambda>x. x \<noteq> CHR ''>'') r \<noteq> [] \<longleftrightarrow> r \<noteq> [] \<and> hd r \<noteq> CHR ''>''"
    by (cases r) simp_all
  have b: "length (takeWhile (\<lambda>x. x \<noteq> CHR ''>'') r) < length r \<longleftrightarrow> CHR ''>'' \<in> set r"
    by (auto simp: takeWhile_short)
  show ?thesis
    unfolding matchesAt_def tagLen_def Let_def list.case a b by auto
qed

lemma tagLen_head: "tagLen (c # cs) = Some k \<Longrightarrow> c = CHR ''<'' \<and> 0 < k"
  by (auto simp: tagLen_def Let_def split: if_splits)

lemma hasTag_Cons:
  "hasTag (c # r) \<longleftrightarrow>
   (c = CHR ''<'' \<and> r \<noteq> [] \<and> hd r \<noteq> CHR ''>'' \<and> CHR ''>'' \<in> set r) \<or> hasTag r"
  by (simp add: hasTag_def matchesAt_tagLen)

lemma hasTag_drop: "hasTag (drop k s) \<Longrightarrow> hasTag s"
  unfolding hasTag_def by (rule containsMatch_drop)

lemma noTag_Nil: "\<not> hasTag []"
  by (simp add: hasTag_def)

text \<open>A matcher that never starts a match at a closing angle leaves a leading closing
  angle in place.\<close>

lemma replaceAll_closing:
  assumes "\<And>x. m (CHR ''>'' # x) = None"
  shows "replaceAll m rep (CHR ''>'' # cs) = CHR ''>'' # replaceAll m rep cs"
  using assms by (simp add: replaceAll_keep)

lemma hasTag_append_rep: "CHR ''<'' \<notin> set rep \<Longrightarrow> hasTag (rep @ x) \<longleftrightarrow> hasTag x"
  by (induction rep) (auto simp: hasTag_Cons)

lemma noTag_replaceAll:
  assumes start: "\<And>x. m (CHR ''>'' # x) = None"
    and rep: "CHR ''<'' \<notin> set rep" "CHR ''>'' \<notin> set rep"
  shows "\<not> hasTag s \<Longrightarrow> \<not> hasTag (replaceAll m rep s)"
proof (induction s rule: replaceAll_induct [where m = m])
  case Nil
  then show ?case by simp
next
  case (match c cs n)
  from match(3) hasTag_drop [of "Suc n" "c # cs"] have "\<not> hasTag (drop n cs)" by auto
  with match(2) have "\<not> hasTag (replaceAll m rep (drop n cs))" by simp
  with rep(1) show ?case
    by (simp add: replaceAll_match [where m = m, OF match(1)] hasTag_append_rep)
next
  case (keep c cs)
  from keep(3) have nt: "\<not> hasTag cs"
    and nm: "\<not> (c = CHR ''<'' \<and> cs \<noteq> [] \<and> hd cs \<noteq> CHR ''>'' \<and> CHR ''>'' \<in> set cs)"
    by (simp_all add: hasTag_Cons)
  let ?R = "replaceAll m rep cs"
  have "\<not> (c = CHR ''<'' \<and> ?R \<noteq> [] \<and> hd ?R \<noteq> CHR ''>'' \<and> CHR ''>'' \<in> set ?R)"
  proof
    assume h: "c = CHR ''<'' \<and> ?R \<noteq> [] \<and> hd ?R \<noteq> CHR ''>'' \<and> CHR ''>'' \<in> set ?R"
    with set_replaceAll [of m rep cs] rep(2) have in_cs: "CHR ''>'' \<in> set cs" by auto
    then obtain x xs where cs: "cs = x # xs" by (cases cs) auto
    have "x \<noteq> CHR ''>''"
    proof
      assume "x = CHR ''>''"
      with cs replaceAll_closing [where m = m, OF start, of rep xs] have "hd ?R = CHR ''>''" by simp
      with h show False by simp
    qed
    with h cs in_cs nm show False by simp
  qed
  with keep(2) nt show ?case
    by (simp add: replaceAll_keep [where m = m, OF keep(1)] hasTag_Cons)
qed

lemma tagLen_closing: "tagLen (CHR ''>'' # x) = None"
  by (simp add: tagLen_def Let_def)

lemma urlLen_closing: "urlLen (CHR ''>'' # x) = None"
  by (simp add: urlLen_def)

lemma wsLen_closing: "wsLen (CHR ''>'' # x) = None"
  by (simp add: wsLen_def isSpace_def)

lemma noTag_stripTags: "\<not> hasTag (stripTags s)"
  unfolding stripTags_def
proof (induction s rule: replaceAll_induct [where m = tagLen])
  case Nil
  then show ?case by (simp add: noTag_Nil)
next
  case (match c cs n)
  then show ?case by (simp add: replaceAll_match)
next
  case (keep c cs)
  have "tagLen (c # cs) \<noteq> Some 0" using tagLen_head by blast
  with keep(1) have "\<not> matchesAt tagLen (c # cs)" by (auto simp: matchesAt_def)
  then have nm: "\<not> (c = CHR ''<'' \<and> cs \<noteq> [] \<and> hd cs \<noteq> CHR ''>'' \<and> CHR ''>'' \<in> set cs)"
    by (simp add: matchesAt_tagLen)
  let ?R = "replaceAll tagLen [] cs"
  have "\<not> (c = CHR ''<'' \<and> ?R \<noteq> [] \<and> hd ?R \<noteq> CHR ''>'' \<and> CHR ''>'' \<in> set ?R)"
  proof
    assume h: "c = CHR ''<'' \<and> ?R \<noteq> [] \<and> hd ?R \<noteq> CHR ''>'' \<and> CHR ''>'' \<in> set ?R"
    with set_replaceAll [of tagLen "[]" cs] have in_cs: "CHR ''>'' \<in> set cs" by auto
    then obtain x xs where cs: "cs = x # xs" by (cases cs) auto
    have "x \<noteq> CHR ''>''"
    proof
      assume "x = CHR ''>''"
      with cs replaceAll_closing [where m = tagLen, OF tagLen_closing, of "[]" xs] have "hd ?R = CHR ''>''" by simp
      with h show False by simp
    qed
    with h cs in_cs nm show False by simp
  qed
  with keep(2) show ?case
    by (simp add: replaceAll_keep [where m = tagLen, OF keep(1)] hasTag_Cons)
qed

lemma noTag_stripUrls: "\<not> hasTag s \<Longrightarrow> \<not> hasTag (stripUrls s)"
  unfolding stripUrls_def by (rule noTag_replaceAll [where m = urlLen, OF urlLen_closing]) simp_all

lemma noTag_collapseWs: "\<not> hasTag s \<Longrightarrow> \<not> hasTag (collapseWs s)"
  unfolding collapseWs_def by (rule noTag_replaceAll [where m = wsLen, OF wsLen_closing]) simp_all

lemma hasTag_append: "hasTag t \<Longrightarrow> hasTag (t @ w)"
proof (induction t)
  case Nil
  then show ?case by (simp add: noTag_Nil)
next
  case (Cons c t)
  then show ?case by (cases t) (auto simp: hasTag_Cons)
qed

lemma noTag_trim: "\<not> hasTag s \<Longrightarrow> \<not> hasTag (trim s)"
proof -
  assume n: "\<not> hasTag s"
  obtain w where w: "dropWhile isSpace s = trim s @ w" using trim_split by blast
  from n have "\<not> hasTag (dropWhile isSpace s)"
    unfolding hasTag_def using containsMatch_dropWhile by blast
  with w hasTag_append [of "trim s" w] show ?thesis by auto
qed

lemma noTag_noSummary: "\<not> hasTag noSummary"
  by (simp add: noSummary_def hasTag_Cons noTag_Nil)

lemma noTag_tidy: "\<not> hasTag t \<Longrightarrow> \<not> hasTag (tidy t)"
  using noTag_trim [OF noTag_collapseWs [OF noTag_stripUrls [of t]]] noTag_noSummary
  by (simp add: tidy_def Let_def)

lemma noTag_cleanSummary:
  "(\<And>h. html = Some h \<Longrightarrow> domText d h = None) \<Longrightarrow> \<not> hasTag (cleanSummary d html)"
  by (cases html) (simp_all add: cleanSummary_def noTag_tidy noTag_stripTags noTag_noSummary)

text \<open>
  Claim C7, as the code has it. For every input, with or without a DOM, the output of
  \<^verbatim>\<open>cleanSummary\<close> has no substring that the URL expression \<^verbatim>\<open>https?:\/\/\S+\<close> matches
  (a scheme followed by at least one character that is not white space). When the text
  does not come from a DOM (there is none, or it throws), the output has no substring that
  the tag expression \<^verbatim>\<open><[^>]+>\<close> matches either.
\<close>

theorem summary_no_url_no_tag:
  "\<not> hasUrl (cleanSummary d html) \<and>
   ((\<forall>h. html = Some h \<longrightarrow> domText d h = None) \<longrightarrow> \<not> hasTag (cleanSummary d html))"
  using noUrl_cleanSummary [of d html] noTag_cleanSummary [of html d] by blast

lemmas tidy_eval2 = tidy_def stripTags_def tagLen_def stripUrls_def urlLen_def nonSpaceRun_def
  collapseWs_def wsLen_def trim_def isSpace_def noSummary_def replaceAll.simps Let_def

text \<open>The theorem at a summary with tags, a URL and trailing white space.\<close>

theorem summary_no_url_no_tag_witness:
  "cleanSummary None (Some ''<p>Read <b>more</b> at https://x.io/a?b=1 now</p>  '')
     = ''Read more at now'' \<and>
   \<not> hasUrl ''Read more at now'' \<and> \<not> hasTag ''Read more at now''"
proof -
  have e: "cleanSummary None (Some ''<p>Read <b>more</b> at https://x.io/a?b=1 now</p>  '')
     = ''Read more at now''"
    by (simp add: cleanSummary_def domText_def tidy_eval2)
  from summary_no_url_no_tag
    [of None "Some ''<p>Read <b>more</b> at https://x.io/a?b=1 now</p>  ''"]
  show ?thesis unfolding e by (simp add: domText_def)
qed

text \<open>Claim C7 as the specification words it fails: at these inputs a closing or an
  opening angle stays in the output.\<close>

theorem summary_angle_counterexample:
  "cleanSummary None (Some ''a > b'') = ''a > b'' \<and>
   cleanSummary None (Some ''x < y'') = ''x < y'' \<and>
   cleanSummary plainDom (Some ''a > b'') = ''a > b'' \<and>
   CHR ''>'' \<in> set ''a > b'' \<and> CHR ''<'' \<in> set ''x < y''"
  by (simp add: cleanSummary_def domText_def plainDom_def tidy_eval2)

end
